theory Spec2Isabelle
  imports Complex_Main
begin

section \<open>JavaScript values used by the card viewer\<close>

text \<open>
  A JavaScript string is a sequence of UTF-16 code units. They are kept as natural
  numbers, so that \<open>btoa\<close> (defined on code units up to 255 only) and \<open>trim\<close>
  (which strips Unicode white space) can be written as the platform defines them.
  \<open>js\<close> turns an ASCII literal of the source into its code units.
\<close>

type_synonym jstring = "nat list"

definition js :: "string \<Rightarrow> jstring" where
  "js s = map of_char s"

text \<open>A string is truthy when it is not empty; \<open>undefined\<close> (a missing field) is falsy.\<close>

definition truthy :: "jstring option \<Rightarrow> bool" where
  "truthy v = (case v of None \<Rightarrow> False | Some s \<Rightarrow> s \<noteq> [])"

text \<open>
  \<open>String.prototype.trim\<close> removes WhiteSpace and LineTerminator code points from both
  ends: TAB, LF, VT, FF, CR, SP, NBSP, U+1680, U+2000..U+200A, U+2028, U+2029, U+202F,
  U+205F, U+3000 and U+FEFF.
\<close>

definition isWhiteSpace :: "nat \<Rightarrow> bool" where
  "isWhiteSpace c \<longleftrightarrow>
     c = 9 \<or> c = 10 \<or> c = 11 \<or> c = 12 \<or> c = 13 \<or> c = 32 \<or> c = 160 \<or> c = 5760 \<or>
     (8192 \<le> c \<and> c \<le> 8202) \<or> c = 8232 \<or> c = 8233 \<or> c = 8239 \<or> c = 8287 \<or>
     c = 12288 \<or> c = 65279"

definition trim :: "jstring \<Rightarrow> jstring" where
  "trim s = rev (dropWhile isWhiteSpace (rev (dropWhile isWhiteSpace s)))"

text \<open>Decimal rendering of a number inside a template string (HTTP status codes).\<close>

fun dec :: "nat \<Rightarrow> jstring" where
  "dec n = (if n < 10 then [48 + n] else dec (n div 10) @ [48 + n mod 10])"

section \<open>Constants\<close>

definition DEFAULT_CARD_ID :: jstring where
  "DEFAULT_CARD_ID = js ''card_001''"

definition MAX_LAYERS :: nat where
  "MAX_LAYERS = 5"

section \<open>Configuration: cards.json\<close>

text \<open>
  The \<open>anim\<close> object of a layer, the layer itself, and a card definition, as the parsed
  JSON gives them. A field that the JSON leaves out reads as \<open>undefined\<close>: \<open>None\<close>.
  An entry of the \<open>layers\<close> array may be \<open>null\<close> (\<open>None\<close> in the list); any other entry
  is read through its \<open>type\<close>, \<open>src\<close>, \<open>pos\<close>, \<open>scale\<close> and \<open>anim\<close> properties.
  \<open>layers\<close> itself may hold something that is not an array.
\<close>

record anim =
  a_float :: "real option"
  a_spinY :: "real option"

record layer =
  l_type :: "jstring option"
  l_src :: "jstring option"
  l_pos :: "(real \<times> real \<times> real) option"
  l_scale :: "(real \<times> real \<times> real) option"
  l_anim :: "anim option"

datatype layers_val = LayersArray "layer option list" | NotArray

record card =
  instagramUrl :: "jstring option"
  layers :: "layers_val option"

text \<open>
  The own properties of the object parsed from cards.json; the value under a card id is
  a card definition, an object.
\<close>

type_synonym config = "jstring \<Rightarrow> card option"

text \<open>
  \<open>config[cardId]\<close> is an ordinary property read: an own property first, then the
  prototype chain. The object comes from \<open>res.json()\<close>, so its prototype is
  \<open>Object.prototype\<close>, whose properties are all functions or objects: truthy values
  without \<open>instagramUrl\<close> or \<open>layers\<close>.
\<close>

datatype jsobject = OwnCard card | Inherited

definition objectPrototypeKeys :: "jstring list" where
  "objectPrototypeKeys =
     [js ''constructor'', js ''__defineGetter__'', js ''__defineSetter__'',
      js ''hasOwnProperty'', js ''__lookupGetter__'', js ''__lookupSetter__'',
      js ''isPrototypeOf'', js ''propertyIsEnumerable'', js ''toString'', js ''valueOf'',
      js ''__proto__'', js ''toLocaleString'']"

definition getProperty :: "config \<Rightarrow> jstring \<Rightarrow> jsobject option" where
  "getProperty config key =
     (case config key of
        Some c \<Rightarrow> Some (OwnCard c)
      | None \<Rightarrow> if key \<in> set objectPrototypeKeys then Some Inherited else None)"

definition get_instagramUrl :: "jsobject \<Rightarrow> jstring option" where
  "get_instagramUrl obj = (case obj of OwnCard c \<Rightarrow> instagramUrl c | Inherited \<Rightarrow> None)"

definition get_layers :: "jsobject \<Rightarrow> layers_val option" where
  "get_layers obj = (case obj of OwnCard c \<Rightarrow> layers c | Inherited \<Rightarrow> None)"

section \<open>Errors and status messages\<close>

text \<open>
  Everything the program can throw. \<open>LoadFailed\<close> and \<open>MissingDefaultCard\<close> are the two
  \<open>new Error(...)\<close> of the source; the others are raised by the platform: a rejected
  \<open>fetch\<close>, a body that is not JSON, a property read on \<open>null\<close>, \<open>btoa\<close> on a code unit
  above 255, and a rejected \<open>start()\<close>/\<open>stop()\<close> of the tracking engine.
\<close>

datatype error =
    FetchRejected
  | LoadFailed nat
  | JsonSyntaxError
  | MissingDefaultCard
  | TypeErrorNull
  | InvalidCharacterError
  | TrackerRejected

text \<open>
  \<open>err.message\<close>. The text of a platform error is the engine's own; it is the
  parameter \<open>engine\<close>.
\<close>

definition message :: "(error \<Rightarrow> jstring) \<Rightarrow> error \<Rightarrow> jstring" where
  "message engine e =
     (case e of
        LoadFailed status \<Rightarrow> js ''Failed to load cards.json: '' @ dec status
      | MissingDefaultCard \<Rightarrow>
          js ''cards.json must include at least the default card config.''
      | _ \<Rightarrow> engine e)"

text \<open>One constructor for each \<open>setStatus\<close> call of the source; \<open>render\<close> is its text.\<close>

datatype status_msg =
    LoadingConfig jstring
  | UnknownCard jstring jstring
  | Ready
  | ErrorStatus error
  | TargetFound
  | TargetLost
  | StartingAR
  | NotReady
  | ARStarted
  | CouldNotStart
  | Stopped
  | VideoStarted

definition render :: "(error \<Rightarrow> jstring) \<Rightarrow> status_msg \<Rightarrow> jstring" where
  "render engine m =
     (case m of
        LoadingConfig cardId \<Rightarrow>
          js ''Card: '' @ cardId @ js '' '' @ [8212] @ js '' loading config'' @ [8230]
      | UnknownCard cardId dflt \<Rightarrow>
          js ''Unknown card id: '' @ cardId @ js ''. Using default: '' @ dflt
      | Ready \<Rightarrow>
          js ''Ready. Tap '' @ [8220] @ js ''Start AR'' @ [8221] @
          js '', then point at the EC logo.''
      | ErrorStatus e \<Rightarrow> js ''Error: '' @ message engine e
      | TargetFound \<Rightarrow> js ''Target found '' @ [9989]
      | TargetLost \<Rightarrow> js ''Target lost'' @ [8230]
      | StartingAR \<Rightarrow> js ''Starting AR'' @ [8230]
      | NotReady \<Rightarrow> js ''MindAR not ready yet. Try again in a moment.''
      | ARStarted \<Rightarrow> js ''AR started. Point at the EC logo.''
      | CouldNotStart \<Rightarrow> js ''Could not start AR (camera permission?).''
      | Stopped \<Rightarrow> js ''Stopped. Tap Start AR to run again.''
      | VideoStarted \<Rightarrow> js ''Video started (if your browser allows it).'')"

section \<open>Scene and document state\<close>

text \<open>
  The \<open>layer-anim\<close> component of an entity: its two schema values and the \<open>baseY\<close>
  that \<open>init\<close> captures.
\<close>

record layer_anim =
  la_float :: real
  la_spinY :: real
  la_baseY :: real

text \<open>
  The element appended to an overlay entity: an \<open>a-plane\<close> textured from an image URL
  (with the cache-buster of the newer build), an \<open>a-gltf-model\<close> (with or without
  \<open>animation-mixer\<close>), or an \<open>a-plane\<close> whose material reads the video element with
  the given id.
\<close>

datatype child =
    ImagePlane jstring "nat option"
  | GltfModel jstring bool
  | VideoPlane jstring

text \<open>
  An \<open>a-entity\<close> made by \<open>makeEntityCommon\<close>. A-Frame gives every entity its
  \<open>object3D\<close> when the element is created; \<open>e_visible\<close> is \<open>object3D.visible\<close>,
  \<open>e_position\<close> and \<open>e_rotation_y\<close> are \<open>object3D.position\<close> and \<open>object3D.rotation.y\<close>.
\<close>

record entity =
  e_position :: "real \<times> real \<times> real"
  e_scale :: "real \<times> real \<times> real"
  e_rotation_y :: real
  e_layer_anim :: "layer_anim option"
  e_always_on_top :: bool
  e_children :: "child list"
  e_visible :: bool

text \<open>A \<open>video\<close> element under \<open>a-assets\<close>.\<close>

record video_el =
  v_id :: jstring
  v_src :: jstring
  v_crossOrigin :: "jstring option"
  v_loop :: bool
  v_playsInline :: bool
  v_muted :: bool
  v_preload :: "jstring option"
  v_paused :: bool
  v_currentTime :: real

text \<open>
  The mutable state the script works on.
  \<^item> \<open>status_log\<close>: every text written to the status readout, oldest first; the readout
    shows the last one.
  \<^item> \<open>anchor_visible\<close>: \<open>anchor.object3D.visible\<close>, \<open>None\<close> when the anchor element has no
    \<open>object3D\<close> (the case \<open>setAnchorVisible\<close> guards against).
  \<^item> \<open>ents\<close>: the store of overlay entities. \<open>anchor_children\<close> and the module-level
    array \<open>spawnedEntities\<close> hold references into it, so a change made through one is
    seen through the other. A reference that the store does not hold stands for an
    element without \<open>object3D\<close>.
  \<^item> \<open>assets\<close>: the \<open>video\<close> elements under the \<open>a-assets\<close> element \<open>#assets\<close>, in
    document order. Ids starting with \<open>vid_\<close> are looked up among them.
  \<^item> \<open>scene_shown\<close>: whether \<open>showScene\<close> last showed or hid the canvases.
  \<^item> \<open>tracker_running\<close>: whether the tracking engine has been started and not stopped.
  \<^item> \<open>clock\<close>: what \<open>Date.now()\<close> returns.

  The style changes that \<open>iosForceCanvasAboveCamera\<close> and its relatives make to the camera
  video and the canvases are not part of this state.
\<close>

record state =
  status_log :: "status_msg list"
  igBtn_href :: jstring
  videoBtn_display :: jstring
  startBtn_disabled :: bool
  stopBtn_disabled :: bool
  anchor_visible :: "bool option"
  anchor_children :: "nat list"
  spawnedEntities :: "nat list"
  ents :: "nat \<Rightarrow> entity option"
  next_ref :: nat
  assets :: "video_el list"
  scene_shown :: bool
  tracker_running :: bool
  clock :: nat

definition setStatus :: "status_msg \<Rightarrow> state \<Rightarrow> state" where
  "setStatus msg st = st\<lparr>status_log := status_log st @ [msg]\<rparr>"

section \<open>Card resolution\<close>

text \<open>
  \<open>getCardIdFromUrl\<close>: the argument is \<open>url.searchParams.get("id")\<close>, \<open>None\<close> for
  \<open>null\<close>.
\<close>

definition getCardIdFromUrl :: "jstring option \<Rightarrow> jstring" where
  "getCardIdFromUrl idParam =
     (case idParam of
        None \<Rightarrow> DEFAULT_CARD_ID
      | Some i \<Rightarrow> if i \<noteq> [] \<and> trim i \<noteq> [] then trim i else DEFAULT_CARD_ID)"

text \<open>
  \<open>loadJSON\<close>: \<open>fetch\<close> either rejects or answers with a status and a body, which
  \<open>res.json()\<close> parses (\<open>None\<close>: the body is not JSON).
\<close>

datatype fetch_result = Rejected | Response nat "config option"

definition loadJSON :: "fetch_result \<Rightarrow> error + config" where
  "loadJSON r =
     (case r of
        Rejected \<Rightarrow> Inl FetchRejected
      | Response status body \<Rightarrow>
          if \<not> (200 \<le> status \<and> status \<le> 299) then Inl (LoadFailed status)
          else (case body of None \<Rightarrow> Inl JsonSyntaxError | Some c \<Rightarrow> Inr c))"

definition clampLayers :: "layers_val \<Rightarrow> layer option list" where
  "clampLayers ls = (case ls of NotArray \<Rightarrow> [] | LayersArray xs \<Rightarrow> take MAX_LAYERS xs)"

text \<open>\<open>chosen.layers || []\<close>\<close>

definition layersOrEmpty :: "jsobject \<Rightarrow> layers_val" where
  "layersOrEmpty chosen = (case get_layers chosen of None \<Rightarrow> LayersArray [] | Some v \<Rightarrow> v)"

text \<open>
  \<open>layers.some(l => l.type === "video")\<close>: stops at the first video layer; reading
  \<open>type\<close> of a \<open>null\<close> entry on the way throws.
\<close>

fun some_video :: "layer option list \<Rightarrow> error + bool" where
  "some_video [] = Inr False"
| "some_video (None # ls) = Inl TypeErrorNull"
| "some_video (Some l # ls) =
     (if l_type l = Some (js ''video'') then Inr True else some_video ls)"

definition showVideoButtonIfNeeded :: "layer option list \<Rightarrow> state \<Rightarrow> error + state" where
  "showVideoButtonIfNeeded ls st =
     (case some_video ls of
        Inl e \<Rightarrow> Inl e
      | Inr needsVideo \<Rightarrow>
          Inr (st\<lparr>videoBtn_display :=
                 (if needsVideo then js ''inline-block'' else js ''none'')\<rparr>))"

section \<open>Layer factory\<close>

text \<open>A template string renders a missing \<open>src\<close> as the text \<open>undefined\<close>.\<close>

definition srcString :: "layer \<Rightarrow> jstring" where
  "srcString l = (case l_src l of None \<Rightarrow> js ''undefined'' | Some s \<Rightarrow> s)"

text \<open>
  \<open>makeEntityCommon\<close> of the newer build: \<open>spinY\<close> is the constant 0, and the
  \<open>layer-anim\<close> component is attached only when \<open>floatAmp\<close> is truthy. \<open>init\<close> of the
  component captures the y of the position just set.
\<close>

definition makeEntityCommon :: "layer \<Rightarrow> entity" where
  "makeEntityCommon l =
     (let pos = (case l_pos l of None \<Rightarrow> (0, 0, - 0.12) | Some p \<Rightarrow> p);
          scl = (case l_scale l of None \<Rightarrow> (0.2, 0.2, 0.2) | Some s \<Rightarrow> s);
          an = (case l_anim l of None \<Rightarrow> \<lparr>a_float = None, a_spinY = None\<rparr> | Some a \<Rightarrow> a);
          floatAmp = (case a_float an of None \<Rightarrow> 0 | Some f \<Rightarrow> f)
      in \<lparr>e_position = pos,
          e_scale = scl,
          e_rotation_y = 0,
          e_layer_anim =
            (if floatAmp \<noteq> 0
             then Some \<lparr>la_float = floatAmp, la_spinY = 0, la_baseY = fst (snd pos)\<rparr>
             else None),
          e_always_on_top = True,
          e_children = [],
          e_visible = True\<rparr>)"

text \<open>
  \<open>makeEntityCommon\<close> of src/main.js: the default position is in front of the marker,
  \<open>spinY\<close> is read from the layer, and the component is attached when either value is
  truthy.
\<close>

definition makeEntityCommon_mainjs :: "layer \<Rightarrow> entity" where
  "makeEntityCommon_mainjs l =
     (let pos = (case l_pos l of None \<Rightarrow> (0, 0, 0.12) | Some p \<Rightarrow> p);
          scl = (case l_scale l of None \<Rightarrow> (0.2, 0.2, 0.2) | Some s \<Rightarrow> s);
          an = (case l_anim l of None \<Rightarrow> \<lparr>a_float = None, a_spinY = None\<rparr> | Some a \<Rightarrow> a);
          floatAmp = (case a_float an of None \<Rightarrow> 0 | Some f \<Rightarrow> f);
          spinY = (case a_spinY an of None \<Rightarrow> 0 | Some s \<Rightarrow> s)
      in \<lparr>e_position = pos,
          e_scale = scl,
          e_rotation_y = 0,
          e_layer_anim =
            (if floatAmp \<noteq> 0 \<or> spinY \<noteq> 0
             then Some \<lparr>la_float = floatAmp, la_spinY = spinY, la_baseY = fst (snd pos)\<rparr>
             else None),
          e_always_on_top = False,
          e_children = [],
          e_visible = True\<rparr>)"


text \<open>
  \<open>anchor.appendChild(e); spawnedEntities.push(e)\<close>: the entity gets the next free
  reference, which both the anchor and the array then hold.
\<close>

definition attach :: "entity \<Rightarrow> state \<Rightarrow> state" where
  "attach e st =
     st\<lparr>ents := (ents st)(next_ref st \<mapsto> e),
        anchor_children := anchor_children st @ [next_ref st],
        spawnedEntities := spawnedEntities st @ [next_ref st],
        next_ref := Suc (next_ref st)\<rparr>"

text \<open>src/main.js has no \<open>spawnedEntities\<close>: the entity is appended to the anchor only.\<close>

definition attach_mainjs :: "entity \<Rightarrow> state \<Rightarrow> state" where
  "attach_mainjs e st =
     st\<lparr>ents := (ents st)(next_ref st \<mapsto> e),
        anchor_children := anchor_children st @ [next_ref st],
        next_ref := Suc (next_ref st)\<rparr>"

definition addImageLayer :: "state \<Rightarrow> layer \<Rightarrow> state" where
  "addImageLayer st l =
     attach ((makeEntityCommon l)\<lparr>e_children := [ImagePlane (srcString l) (Some (clock st))]\<rparr>) st"

definition addImageLayer_mainjs :: "state \<Rightarrow> layer \<Rightarrow> state" where
  "addImageLayer_mainjs st l =
     attach_mainjs ((makeEntityCommon_mainjs l)\<lparr>e_children := [ImagePlane (srcString l) None]\<rparr>) st"

definition addModelLayer :: "state \<Rightarrow> layer \<Rightarrow> state" where
  "addModelLayer st l =
     attach ((makeEntityCommon l)\<lparr>e_children := [GltfModel (srcString l) True]\<rparr>) st"

definition addModelLayer_mainjs :: "state \<Rightarrow> layer \<Rightarrow> state" where
  "addModelLayer_mainjs st l =
     attach_mainjs ((makeEntityCommon_mainjs l)\<lparr>e_children := [GltfModel (srcString l) False]\<rparr>) st"

section \<open>Asset registry\<close>

text \<open>
  \<open>btoa\<close>: base64 of a string whose code units are all at most 255; any other string
  throws \<open>InvalidCharacterError\<close>. Code unit 61 is the padding character. For code
  units up to 255 every index into the alphabet is below 64, so the \<open>mod\<close> in \<open>b64\<close>
  changes nothing there.
\<close>

definition b64chars :: jstring where
  "b64chars = js ''ABCDEFGHIJKLMNOPQRSTUVWXYZabcdefghijklmnopqrstuvwxyz0123456789+/''"

definition b64 :: "nat \<Rightarrow> nat" where
  "b64 n = b64chars ! (n mod 64)"

fun b64enc :: "nat list \<Rightarrow> jstring" where
  "b64enc [] = []"
| "b64enc [a] = [b64 (a div 4), b64 ((a mod 4) * 16), 61, 61]"
| "b64enc [a, b] =
     [b64 (a div 4), b64 ((a mod 4) * 16 + b div 16), b64 ((b mod 16) * 4), 61]"
| "b64enc (a # b # c # rest) =
     [b64 (a div 4), b64 ((a mod 4) * 16 + b div 16), b64 ((b mod 16) * 4 + c div 64),
      b64 (c mod 64)] @ b64enc rest"

definition btoa :: "jstring \<Rightarrow> error + jstring" where
  "btoa s = (if \<forall>c \<in> set s. c \<le> 255 then Inr (b64enc s) else Inl InvalidCharacterError)"

text \<open>\<open>$(vidId)\<close>: the first element with that id.\<close>

definition getElementById :: "jstring \<Rightarrow> state \<Rightarrow> video_el option" where
  "getElementById i st = find (\<lambda>v. v_id v = i) (assets st)"

text \<open>
  \<open>ensureVideoAsset\<close>, the same in both builds. \<open>btoa\<close> runs before anything is
  created, so a throw leaves the document as it was. A new \<open>video\<close> element starts
  paused at position 0.
\<close>

definition ensureVideoAsset :: "layer \<Rightarrow> state \<Rightarrow> error + (jstring \<times> state)" where
  "ensureVideoAsset l st =
     (case btoa (srcString l) of
        Inl e \<Rightarrow> Inl e
      | Inr b \<Rightarrow>
          (let vidId = js ''vid_'' @ filter (\<lambda>c. c \<noteq> 61) b
           in if getElementById vidId st \<noteq> None then Inr (vidId, st)
              else Inr (vidId,
                        st\<lparr>assets := assets st @
                             [\<lparr>v_id = vidId,
                               v_src = srcString l,
                               v_crossOrigin = Some (js ''anonymous''),
                               v_loop = True,
                               v_playsInline = True,
                               v_muted = True,
                               v_preload = Some (js ''auto''),
                               v_paused = True,
                               v_currentTime = 0\<rparr>]\<rparr>)))"

definition addVideoLayer :: "state \<Rightarrow> layer \<Rightarrow> error + state" where
  "addVideoLayer st l =
     (case ensureVideoAsset l st of
        Inl e \<Rightarrow> Inl e
      | Inr (vidId, st') \<Rightarrow>
          Inr (attach ((makeEntityCommon l)\<lparr>e_children := [VideoPlane vidId]\<rparr>) st'))"

definition addVideoLayer_mainjs :: "state \<Rightarrow> layer \<Rightarrow> error + state" where
  "addVideoLayer_mainjs st l =
     (case ensureVideoAsset l st of
        Inl e \<Rightarrow> Inl e
      | Inr (vidId, st') \<Rightarrow>
          Inr (attach_mainjs ((makeEntityCommon_mainjs l)\<lparr>e_children := [VideoPlane vidId]\<rparr>) st'))"

section \<open>Building the overlays\<close>

text \<open>The body of the loop \<open>for (const layer of layers)\<close> in \<open>main\<close>.\<close>

definition spawnLayer :: "state \<Rightarrow> layer option \<Rightarrow> error + state" where
  "spawnLayer st entry =
     (case entry of
        None \<Rightarrow> Inr st
      | Some l \<Rightarrow>
          if \<not> truthy (l_type l) \<or> \<not> truthy (l_src l) then Inr st
          else if l_type l = Some (js ''image'') then Inr (addImageLayer st l)
          else if l_type l = Some (js ''gif'') then Inr (addImageLayer st l)
          else if l_type l = Some (js ''model'') then Inr (addModelLayer st l)
          else if l_type l = Some (js ''video'') then addVideoLayer st l
          else Inr st)"

text \<open>The same loop body in src/main.js, which has no branch for \<open>gif\<close>.\<close>

definition spawnLayer_mainjs :: "state \<Rightarrow> layer option \<Rightarrow> error + state" where
  "spawnLayer_mainjs st entry =
     (case entry of
        None \<Rightarrow> Inr st
      | Some l \<Rightarrow>
          if \<not> truthy (l_type l) \<or> \<not> truthy (l_src l) then Inr st
          else if l_type l = Some (js ''image'') then Inr (addImageLayer_mainjs st l)
          else if l_type l = Some (js ''model'') then Inr (addModelLayer_mainjs st l)
          else if l_type l = Some (js ''video'') then addVideoLayer_mainjs st l
          else Inr st)"

text \<open>
  The loop. A throw ends it; the state is the one reached so far and the error is
  returned beside it.
\<close>

fun spawnLayers :: "state \<Rightarrow> layer option list \<Rightarrow> state \<times> error option" where
  "spawnLayers st [] = (st, None)"
| "spawnLayers st (entry # rest) =
     (case spawnLayer st entry of
        Inl e \<Rightarrow> (st, Some e)
      | Inr st' \<Rightarrow> spawnLayers st' rest)"

fun spawnLayers_mainjs :: "state \<Rightarrow> layer option list \<Rightarrow> state \<times> error option" where
  "spawnLayers_mainjs st [] = (st, None)"
| "spawnLayers_mainjs st (entry # rest) =
     (case spawnLayer_mainjs st entry of
        Inl e \<Rightarrow> (st, Some e)
      | Inr st' \<Rightarrow> spawnLayers_mainjs st' rest)"

section \<open>Visibility\<close>

definition clearAnchor :: "state \<Rightarrow> state" where
  "clearAnchor st = st\<lparr>anchor_children := []\<rparr>"

definition setAnchorVisible :: "bool \<Rightarrow> state \<Rightarrow> state" where
  "setAnchorVisible isVisible st =
     (case anchor_visible st of
        None \<Rightarrow> st
      | Some _ \<Rightarrow> st\<lparr>anchor_visible := Some isVisible\<rparr>)"

text \<open>
  \<open>if (el?.object3D) el.object3D.visible = v\<close> for one element of \<open>spawnedEntities\<close>.
\<close>

definition setEntityVisible :: "bool \<Rightarrow> nat \<Rightarrow> (nat \<Rightarrow> entity option) \<Rightarrow> (nat \<Rightarrow> entity option)" where
  "setEntityVisible v r es =
     (case es r of None \<Rightarrow> es | Some e \<Rightarrow> es(r \<mapsto> e\<lparr>e_visible := v\<rparr>))"

definition resetVideo :: "video_el \<Rightarrow> video_el" where
  "resetVideo v = v\<lparr>v_muted := True, v_paused := True, v_currentTime := 0\<rparr>"

text \<open>
  \<open>hideAllOverlaysAndReset\<close>. The wrapper entities carry no \<open>material\<close> attribute (the
  material is set on the child plane), so \<open>el.getAttribute("material")\<close> is \<open>null\<close> and
  the first loop only clears the flag; the videos are reset by the second loop, over
  every \<open>video\<close> under \<open>a-assets\<close>.
\<close>

definition hideAllOverlaysAndReset :: "state \<Rightarrow> state" where
  "hideAllOverlaysAndReset st =
     (let st1 = setAnchorVisible False st;
          st2 = st1\<lparr>ents := fold (setEntityVisible False) (spawnedEntities st1) (ents st1)\<rparr>
      in st2\<lparr>assets := map resetVideo (assets st2)\<rparr>)"

text \<open>\<open>showScene\<close>: the canvases and the scene element are shown or force-hidden.\<close>

definition showScene :: "bool \<Rightarrow> state \<Rightarrow> state" where
  "showScene sh st = st\<lparr>scene_shown := sh\<rparr>"

section \<open>Start-up\<close>

text \<open>\<open>card || config[DEFAULT_CARD_ID]\<close>\<close>

definition chooseCard :: "config \<Rightarrow> jstring \<Rightarrow> jsobject option" where
  "chooseCard config cardId =
     (case getProperty config cardId of
        Some c \<Rightarrow> Some c
      | None \<Rightarrow> getProperty config DEFAULT_CARD_ID)"

text \<open>
  The part of \<open>main\<close> from \<open>showVideoButtonIfNeeded(layers)\<close> to the last
  \<open>setAnchorVisible(anchor, false)\<close>: the overlays are rebuilt and left hidden. The
  result is the state reached and, when a statement throws, the error; the state is then
  the one at the throw.
\<close>

definition buildCard :: "layer option list \<Rightarrow> state \<Rightarrow> state \<times> error option" where
  "buildCard ls st =
     (case showVideoButtonIfNeeded ls st of
        Inl e \<Rightarrow> (st, Some e)
      | Inr st1 \<Rightarrow>
          (case spawnLayers ((clearAnchor st1)\<lparr>spawnedEntities := []\<rparr>) ls of
             (st2, Some e) \<Rightarrow> (st2, Some e)
           | (st2, None) \<Rightarrow>
               (setAnchorVisible False
                  (hideAllOverlaysAndReset (showScene False (setStatus Ready st2))),
                None)))"

text \<open>\<open>main\<close> of the newer build, up to the registration of the click handlers.\<close>

definition main :: "jstring option \<Rightarrow> fetch_result \<Rightarrow> state \<Rightarrow> state \<times> error option" where
  "main idParam fetched st0 =
     (let cardId = getCardIdFromUrl idParam;
          st1 = setStatus (LoadingConfig cardId) st0
      in case loadJSON fetched of
           Inl e \<Rightarrow> (st1, Some e)
         | Inr config \<Rightarrow>
             (let st2 = (if getProperty config cardId = None
                         then setStatus (UnknownCard cardId DEFAULT_CARD_ID) st1
                         else st1)
              in case chooseCard config cardId of
                   None \<Rightarrow> (st2, Some MissingDefaultCard)
                 | Some chosen \<Rightarrow>
                     buildCard (clampLayers (layersOrEmpty chosen))
                       (st2\<lparr>igBtn_href :=
                              (case get_instagramUrl chosen of
                                 None \<Rightarrow> js ''https://instagram.com/''
                               | Some u \<Rightarrow>
                                   if u \<noteq> [] then u else js ''https://instagram.com/'')\<rparr>)))"

text \<open>The \<open>DOMContentLoaded\<close> listener: a throw of \<open>main\<close> ends in the status readout.\<close>

definition onDOMContentLoaded :: "jstring option \<Rightarrow> fetch_result \<Rightarrow> state \<Rightarrow> state" where
  "onDOMContentLoaded idParam fetched st0 =
     (case main idParam fetched st0 of
        (st, None) \<Rightarrow> st
      | (st, Some e) \<Rightarrow> setStatus (ErrorStatus e) st)"

text \<open>
  The state when the script starts: \<open>spawnedEntities\<close> is the empty array of the module,
  nothing has been written to the readout, the engine is not running; the rest is what
  the page provides.
\<close>

definition initial :: "state \<Rightarrow> state" where
  "initial page = page\<lparr>status_log := [], spawnedEntities := [], tracker_running := False\<rparr>"

section \<open>Event handlers\<close>

text \<open>
  The \<open>targetFound\<close> and \<open>targetLost\<close> listeners on the anchor that change the overlays;
  the second listener of each event only restacks the canvas or does nothing.
\<close>

definition onTargetFound :: "state \<Rightarrow> state" where
  "onTargetFound st =
     (let st1 = setAnchorVisible True (setStatus TargetFound st)
      in st1\<lparr>ents := fold (setEntityVisible True) (spawnedEntities st1) (ents st1)\<rparr>)"

definition onTargetLost :: "state \<Rightarrow> state" where
  "onTargetLost st = hideAllOverlaysAndReset (setStatus TargetLost st)"

text \<open>
  The click handler of the start button. \<open>ready\<close> says whether
  \<open>sceneEl.systems["mindar-image-system"]\<close> exists; \<open>started\<close> is what awaiting
  \<open>mindarSystem.start()\<close> gives: \<open>None\<close> when it resolves, the error when it rejects.
  The second component of the result is the error that leaves the handler.
\<close>

definition startClick :: "bool \<Rightarrow> error option \<Rightarrow> state \<Rightarrow> state \<times> error option" where
  "startClick ready started st =
     (let st1 = setStatus StartingAR st
      in if \<not> ready then (setStatus NotReady st1, None)
         else (let st2 = hideAllOverlaysAndReset (showScene True st1)
               in case started of
                    Some err \<Rightarrow> (setStatus CouldNotStart st2, None)
                  | None \<Rightarrow>
                      (setStatus ARStarted
                         (st2\<lparr>tracker_running := True,
                              startBtn_disabled := True,
                              stopBtn_disabled := False\<rparr>),
                       None)))"

text \<open>The same handler in src/main.js, which touches neither the scene nor the overlays.\<close>

definition startClick_mainjs :: "bool \<Rightarrow> error option \<Rightarrow> state \<Rightarrow> state \<times> error option" where
  "startClick_mainjs ready started st =
     (let st1 = setStatus StartingAR st
      in if \<not> ready then (setStatus NotReady st1, None)
         else (case started of
                 Some err \<Rightarrow> (setStatus CouldNotStart st1, None)
               | None \<Rightarrow>
                   (setStatus ARStarted
                      (st1\<lparr>tracker_running := True,
                           startBtn_disabled := True,
                           stopBtn_disabled := False\<rparr>),
                    None)))"

text \<open>
  The click handler of the stop button. \<open>await mindarSystem.stop()\<close> is outside any
  \<open>try\<close>: when it rejects (\<open>stopped = Some err\<close>) the handler ends there with that error.
  The two delayed \<open>showScene(sceneEl, false)\<close> repeat the call made at once.
\<close>

definition stopClick :: "bool \<Rightarrow> error option \<Rightarrow> state \<Rightarrow> state \<times> error option" where
  "stopClick ready stopped st =
     (if \<not> ready then (st, None)
      else (let st1 = setAnchorVisible False (hideAllOverlaysAndReset st)
            in case stopped of
                 Some err \<Rightarrow> (st1, Some err)
               | None \<Rightarrow>
                   (setStatus Stopped
                      ((showScene False st1)\<lparr>tracker_running := False,
                                              startBtn_disabled := False,
                                              stopBtn_disabled := True\<rparr>),
                    None)))"

text \<open>
  The click handler of the video button: every video under \<open>a-assets\<close> is unmuted and
  played; \<open>playable v\<close> says whether \<open>v.play()\<close> resolves, a rejection is caught.
\<close>

definition videoClick :: "(video_el \<Rightarrow> bool) \<Rightarrow> state \<Rightarrow> state" where
  "videoClick playable st =
     setStatus VideoStarted
       (st\<lparr>assets :=
             map (\<lambda>v. if playable v then v\<lparr>v_muted := False, v_paused := False\<rparr>
                      else v\<lparr>v_muted := False\<rparr>)
                 (assets st)\<rparr>)"

section \<open>Notions used to state the properties\<close>

text \<open>The array under \<open>layers\<close> of the card definition in use, before the clamp.\<close>

definition configuredLayers :: "config \<Rightarrow> jstring \<Rightarrow> layer option list" where
  "configuredLayers config cardId =
     (case chooseCard config cardId of
        None \<Rightarrow> []
      | Some chosen \<Rightarrow>
          (case layersOrEmpty chosen of LayersArray xs \<Rightarrow> xs | NotArray \<Rightarrow> []))"

text \<open>An entry of the array that is an object with both \<open>type\<close> and \<open>src\<close> present.\<close>

definition has_type_and_src :: "layer option \<Rightarrow> bool" where
  "has_type_and_src entry =
     (case entry of None \<Rightarrow> False | Some l \<Rightarrow> l_type l \<noteq> None \<and> l_src l \<noteq> None)"

text \<open>
  A valid layer specification: \<open>type\<close> is one of the four kinds and \<open>src\<close> is a
  non-empty string.
\<close>

definition layerKinds :: "jstring list" where
  "layerKinds = [js ''image'', js ''gif'', js ''model'', js ''video'']"

definition validLayer :: "layer \<Rightarrow> bool" where
  "validLayer l \<longleftrightarrow>
     (case l_type l of None \<Rightarrow> False | Some t \<Rightarrow> t \<in> set layerKinds) \<and> truthy (l_src l)"

fun validLayers :: "layer option list \<Rightarrow> layer list" where
  "validLayers [] = []"
| "validLayers (None # rest) = validLayers rest"
| "validLayers (Some l # rest) = (if validLayer l then l # validLayers rest else validLayers rest)"

text \<open>The id of the shared video element of a source.\<close>

definition vidIdOf :: "jstring \<Rightarrow> jstring" where
  "vidIdOf s = js ''vid_'' @ filter (\<lambda>c. c \<noteq> 61) (b64enc s)"

text \<open>
  The overlay of one valid layer, as the layer factory is specified: the common entity
  with a textured plane for \<open>image\<close> and \<open>gif\<close>, a model node for \<open>model\<close>, and a plane
  bound to the shared video of the source for \<open>video\<close>.
\<close>

definition overlayOf :: "nat \<Rightarrow> layer \<Rightarrow> entity" where
  "overlayOf now l =
     (makeEntityCommon l)
       \<lparr>e_children :=
          [if l_type l = Some (js ''model'') then GltfModel (srcString l) True
           else if l_type l = Some (js ''video'') then VideoPlane (vidIdOf (srcString l))
           else ImagePlane (srcString l) (Some now)]\<rparr>"

text \<open>Whether \<open>btoa\<close> is defined on a string.\<close>

definition latin1 :: "jstring \<Rightarrow> bool" where
  "latin1 s \<longleftrightarrow> (\<forall>c \<in> set s. c \<le> 255)"

text \<open>
  What the browser delivers after start-up, and the handler that runs for it; an error
  that leaves an \<open>async\<close> handler is an unhandled rejection and changes nothing more.
\<close>

datatype event =
    EvTargetFound
  | EvTargetLost
  | EvStartClick bool "error option"
  | EvStopClick bool "error option"
  | EvVideoClick "video_el \<Rightarrow> bool"

fun handle :: "event \<Rightarrow> state \<Rightarrow> state" where
  "handle EvTargetFound st = onTargetFound st"
| "handle EvTargetLost st = onTargetLost st"
| "handle (EvStartClick ready started) st = fst (startClick ready started st)"
| "handle (EvStopClick ready stopped) st = fst (stopClick ready stopped st)"
| "handle (EvVideoClick playable) st = videoClick playable st"

text \<open>
  Every element of \<open>spawnedEntities\<close> is an entity of the store, and the video element
  that one of its planes reads is among the assets.
\<close>

definition overlaysBound :: "state \<Rightarrow> bool" where
  "overlaysBound st \<longleftrightarrow>
     (\<forall>r \<in> set (spawnedEntities st).
        \<exists>e. ents st r = Some e \<and>
            (\<forall>vid. VideoPlane vid \<in> set (e_children e) \<longrightarrow>
                   (\<exists>v \<in> set (assets st). v_id v = vid)))"

text \<open>
  Two states with the same \<open>spawnedEntities\<close>, the same children under every entity and
  the same ids among the assets.
\<close>

definition sameOverlays :: "state \<Rightarrow> state \<Rightarrow> bool" where
  "sameOverlays st st' \<longleftrightarrow>
     spawnedEntities st' = spawnedEntities st \<and>
     (\<forall>r e. ents st r = Some e \<longrightarrow> (\<exists>e'. ents st' r = Some e' \<and> e_children e' = e_children e)) \<and>
     v_id ` set (assets st') = v_id ` set (assets st)"

section \<open>Example inputs\<close>

definition ex_image :: layer where
  "ex_image = \<lparr>l_type = Some (js ''image''), l_src = Some (js ''a.png''), l_pos = None,
                l_scale = None, l_anim = None\<rparr>"

definition ex_gif :: layer where
  "ex_gif = \<lparr>l_type = Some (js ''gif''), l_src = Some (js ''a.gif''), l_pos = None,
              l_scale = None, l_anim = None\<rparr>"

definition ex_model :: layer where
  "ex_model = \<lparr>l_type = Some (js ''model''), l_src = Some (js ''m.glb''),
                l_pos = Some (0, 0.1, 0), l_scale = None, l_anim = None\<rparr>"

definition ex_video :: layer where
  "ex_video = \<lparr>l_type = Some (js ''video''), l_src = Some (js ''clip.mp4''), l_pos = None,
                l_scale = None, l_anim = Some \<lparr>a_float = Some 0.01, a_spinY = Some 90\<rparr>\<rparr>"

text \<open>A video layer without \<open>src\<close>, and one whose \<open>src\<close> starts with U+65E5.\<close>

definition ex_video_nosrc :: layer where
  "ex_video_nosrc = \<lparr>l_type = Some (js ''video''), l_src = None, l_pos = None,
                      l_scale = None, l_anim = None\<rparr>"

definition ex_video_wide :: layer where
  "ex_video_wide = \<lparr>l_type = Some (js ''video''), l_src = Some (26085 # js ''.mp4''),
                     l_pos = None, l_scale = None, l_anim = None\<rparr>"

text \<open>
  cards.json with the default card only: an image and two video layers of one source.
\<close>

definition ex_card :: card where
  "ex_card = \<lparr>instagramUrl = None,
               layers = Some (LayersArray [Some ex_image, Some ex_video, Some ex_video])\<rparr>"

definition ex_config :: config where
  "ex_config key = (if key = js ''card_001'' then Some ex_card else None)"

text \<open>cards.json whose default card has an image layer and the video layer with U+65E5.\<close>

definition ex_card_wide :: card where
  "ex_card_wide = \<lparr>instagramUrl = None,
                    layers = Some (LayersArray [Some ex_image, Some ex_video_wide])\<rparr>"

definition ex_config_wide :: config where
  "ex_config_wide key = (if key = js ''card_001'' then Some ex_card_wide else None)"

text \<open>A card whose first five entries have no \<open>src\<close> and whose sixth is valid.\<close>

definition ex_six :: card where
  "ex_six = \<lparr>instagramUrl = None,
              layers = Some (LayersArray
                 [Some ex_video_nosrc, Some ex_video_nosrc, Some ex_video_nosrc,
                  Some ex_video_nosrc, Some ex_video_nosrc, Some ex_image])\<rparr>"

definition ex_config_six :: config where
  "ex_config_six key = (if key = js ''card_001'' then Some ex_six else None)"


text \<open>A page with an anchor entity, empty \<open>a-assets\<close> and both buttons enabled.\<close>

definition ex_page :: state where
  "ex_page = \<lparr>status_log = [], igBtn_href = [], videoBtn_display = [],
               startBtn_disabled = False, stopBtn_disabled = False,
               anchor_visible = Some True, anchor_children = [], spawnedEntities = [],
               ents = (\<lambda>_. None), next_ref = 0, assets = [], scene_shown = True,
               tracker_running = False, clock = 1000\<rparr>"

text \<open>
  \<open>extends st es st'\<close>: \<open>st'\<close> is \<open>st\<close> with the entities \<open>es\<close> attached, in this order, under
  the next free references; nothing else has changed but the assets, which may have grown.
\<close>

definition extends :: "state \<Rightarrow> entity list \<Rightarrow> state \<Rightarrow> bool" where
  "extends st es st' \<longleftrightarrow>
     status_log st' = status_log st \<and> igBtn_href st' = igBtn_href st \<and>
     videoBtn_display st' = videoBtn_display st \<and>
     startBtn_disabled st' = startBtn_disabled st \<and>
     stopBtn_disabled st' = stopBtn_disabled st \<and>
     anchor_visible st' = anchor_visible st \<and> scene_shown st' = scene_shown st \<and>
     tracker_running st' = tracker_running st \<and> clock st' = clock st \<and>
     next_ref st' = next_ref st + length es \<and>
     spawnedEntities st' = spawnedEntities st @ [next_ref st ..< next_ref st + length es] \<and>
     anchor_children st' = anchor_children st @ [next_ref st ..< next_ref st + length es] \<and>
     (\<forall>r < next_ref st. ents st' r = ents st r) \<and>
     map (ents st') [next_ref st ..< next_ref st + length es] = map Some es \<and>
     set (assets st) \<subseteq> set (assets st')"

section \<open>Auxiliary facts about the state\<close>

lemma setEntityVisible_apply:
  "setEntityVisible v a es r = (if r = a then map_option (\<lambda>e. e\<lparr>e_visible := v\<rparr>) (es r) else es r)"
  by (simp add: setEntityVisible_def split: option.splits)

lemma fold_setEntityVisible:
  "fold (setEntityVisible v) rs es r =
     (if r \<in> set rs then map_option (\<lambda>e. e\<lparr>e_visible := v\<rparr>) (es r) else es r)"
proof (induction rs arbitrary: es)
  case Nil
  show ?case by simp
next
  case (Cons a rs)
  have "fold (setEntityVisible v) (a # rs) es r =
          fold (setEntityVisible v) rs (setEntityVisible v a es) r"
    by simp
  also have "\<dots> = (if r \<in> set rs
                     then map_option (\<lambda>e. e\<lparr>e_visible := v\<rparr>) (setEntityVisible v a es r)
                     else setEntityVisible v a es r)"
    by (rule Cons.IH)
  also have "\<dots> = (if r \<in> set (a # rs) then map_option (\<lambda>e. e\<lparr>e_visible := v\<rparr>) (es r)
                     else es r)"
    by (cases "es a") (auto simp: setEntityVisible_def)
  finally show ?case .
qed

lemma setAnchorVisible_fields [simp]:
  "status_log (setAnchorVisible b st) = status_log st"
  "igBtn_href (setAnchorVisible b st) = igBtn_href st"
  "videoBtn_display (setAnchorVisible b st) = videoBtn_display st"
  "startBtn_disabled (setAnchorVisible b st) = startBtn_disabled st"
  "stopBtn_disabled (setAnchorVisible b st) = stopBtn_disabled st"
  "anchor_children (setAnchorVisible b st) = anchor_children st"
  "spawnedEntities (setAnchorVisible b st) = spawnedEntities st"
  "ents (setAnchorVisible b st) = ents st"
  "next_ref (setAnchorVisible b st) = next_ref st"
  "assets (setAnchorVisible b st) = assets st"
  "scene_shown (setAnchorVisible b st) = scene_shown st"
  "tracker_running (setAnchorVisible b st) = tracker_running st"
  "clock (setAnchorVisible b st) = clock st"
  "anchor_visible (setAnchorVisible b st) = map_option (\<lambda>_. b) (anchor_visible st)"
  by (simp_all add: setAnchorVisible_def split: option.splits)

lemma hideAll_fields [simp]:
  "status_log (hideAllOverlaysAndReset st) = status_log st"
  "igBtn_href (hideAllOverlaysAndReset st) = igBtn_href st"
  "videoBtn_display (hideAllOverlaysAndReset st) = videoBtn_display st"
  "startBtn_disabled (hideAllOverlaysAndReset st) = startBtn_disabled st"
  "stopBtn_disabled (hideAllOverlaysAndReset st) = stopBtn_disabled st"
  "anchor_children (hideAllOverlaysAndReset st) = anchor_children st"
  "spawnedEntities (hideAllOverlaysAndReset st) = spawnedEntities st"
  "next_ref (hideAllOverlaysAndReset st) = next_ref st"
  "scene_shown (hideAllOverlaysAndReset st) = scene_shown st"
  "tracker_running (hideAllOverlaysAndReset st) = tracker_running st"
  "clock (hideAllOverlaysAndReset st) = clock st"
  "anchor_visible (hideAllOverlaysAndReset st) = map_option (\<lambda>_. False) (anchor_visible st)"
  "assets (hideAllOverlaysAndReset st) = map resetVideo (assets st)"
  "ents (hideAllOverlaysAndReset st) = fold (setEntityVisible False) (spawnedEntities st) (ents st)"
  by (simp_all add: hideAllOverlaysAndReset_def Let_def)

lemma setStatus_fields [simp]:
  "status_log (setStatus m st) = status_log st @ [m]"
  "igBtn_href (setStatus m st) = igBtn_href st"
  "videoBtn_display (setStatus m st) = videoBtn_display st"
  "startBtn_disabled (setStatus m st) = startBtn_disabled st"
  "stopBtn_disabled (setStatus m st) = stopBtn_disabled st"
  "anchor_visible (setStatus m st) = anchor_visible st"
  "anchor_children (setStatus m st) = anchor_children st"
  "spawnedEntities (setStatus m st) = spawnedEntities st"
  "ents (setStatus m st) = ents st"
  "next_ref (setStatus m st) = next_ref st"
  "assets (setStatus m st) = assets st"
  "scene_shown (setStatus m st) = scene_shown st"
  "tracker_running (setStatus m st) = tracker_running st"
  "clock (setStatus m st) = clock st"
  by (simp_all add: setStatus_def)

lemma showScene_fields [simp]:
  "status_log (showScene b st) = status_log st"
  "igBtn_href (showScene b st) = igBtn_href st"
  "videoBtn_display (showScene b st) = videoBtn_display st"
  "startBtn_disabled (showScene b st) = startBtn_disabled st"
  "stopBtn_disabled (showScene b st) = stopBtn_disabled st"
  "anchor_visible (showScene b st) = anchor_visible st"
  "anchor_children (showScene b st) = anchor_children st"
  "spawnedEntities (showScene b st) = spawnedEntities st"
  "ents (showScene b st) = ents st"
  "next_ref (showScene b st) = next_ref st"
  "assets (showScene b st) = assets st"
  "scene_shown (showScene b st) = b"
  "tracker_running (showScene b st) = tracker_running st"
  "clock (showScene b st) = clock st"
  by (simp_all add: showScene_def)

lemma resetVideo_fields [simp]:
  "v_muted (resetVideo v)" "v_paused (resetVideo v)" "v_currentTime (resetVideo v) = 0"
  "v_id (resetVideo v) = v_id v" "v_src (resetVideo v) = v_src v"
  by (simp_all add: resetVideo_def)

lemma hideAll_hides:
  "anchor_visible (hideAllOverlaysAndReset st) \<noteq> Some True"
  "r \<in> set (spawnedEntities st) \<Longrightarrow> ents st r = Some e \<Longrightarrow>
     ents (hideAllOverlaysAndReset st) r = Some (e\<lparr>e_visible := False\<rparr>)"
  "v \<in> set (assets (hideAllOverlaysAndReset st)) \<Longrightarrow> v_paused v \<and> v_currentTime v = 0 \<and> v_muted v"
  by (auto simp: fold_setEntityVisible split: option.splits)


lemma attach_fields [simp]:
  "status_log (attach e st) = status_log st"
  "igBtn_href (attach e st) = igBtn_href st"
  "videoBtn_display (attach e st) = videoBtn_display st"
  "startBtn_disabled (attach e st) = startBtn_disabled st"
  "stopBtn_disabled (attach e st) = stopBtn_disabled st"
  "anchor_visible (attach e st) = anchor_visible st"
  "anchor_children (attach e st) = anchor_children st @ [next_ref st]"
  "spawnedEntities (attach e st) = spawnedEntities st @ [next_ref st]"
  "ents (attach e st) = (ents st)(next_ref st \<mapsto> e)"
  "next_ref (attach e st) = Suc (next_ref st)"
  "assets (attach e st) = assets st"
  "scene_shown (attach e st) = scene_shown st"
  "tracker_running (attach e st) = tracker_running st"
  "clock (attach e st) = clock st"
  by (simp_all add: attach_def)

lemma kinds_distinct:
  "js ''image'' \<noteq> js ''gif''" "js ''image'' \<noteq> js ''model''" "js ''image'' \<noteq> js ''video''"
  "js ''gif'' \<noteq> js ''image''" "js ''gif'' \<noteq> js ''model''" "js ''gif'' \<noteq> js ''video''"
  "js ''model'' \<noteq> js ''image''" "js ''model'' \<noteq> js ''gif''" "js ''model'' \<noteq> js ''video''"
  "js ''video'' \<noteq> js ''image''" "js ''video'' \<noteq> js ''gif''" "js ''video'' \<noteq> js ''model''"
  "js ''image'' \<noteq> []" "js ''gif'' \<noteq> []" "js ''model'' \<noteq> []" "js ''video'' \<noteq> []"
  by (simp_all add: js_def)

lemma validLayer_cases:
  "validLayer l \<longleftrightarrow>
     (l_type l = Some (js ''image'') \<or> l_type l = Some (js ''gif'') \<or>
      l_type l = Some (js ''model'') \<or> l_type l = Some (js ''video'')) \<and> truthy (l_src l)"
  by (cases "l_type l") (auto simp: validLayer_def layerKinds_def)

lemma btoa_latin1: "btoa s = (if latin1 s then Inr (b64enc s) else Inl InvalidCharacterError)"
  by (simp add: btoa_def latin1_def)

lemma ensureVideoAsset_eq:
  "ensureVideoAsset l st =
     (if latin1 (srcString l)
      then Inr (vidIdOf (srcString l),
                if getElementById (vidIdOf (srcString l)) st \<noteq> None then st
                else st\<lparr>assets := assets st @
                       [\<lparr>v_id = vidIdOf (srcString l), v_src = srcString l,
                         v_crossOrigin = Some (js ''anonymous''), v_loop = True,
                         v_playsInline = True, v_muted = True, v_preload = Some (js ''auto''),
                         v_paused = True, v_currentTime = 0\<rparr>]\<rparr>)
      else Inl InvalidCharacterError)"
  by (simp add: ensureVideoAsset_def btoa_latin1 vidIdOf_def Let_def)

lemma getElementById_None: "getElementById i st = None \<longleftrightarrow> (\<forall>v \<in> set (assets st). v_id v \<noteq> i)"
  by (auto simp: getElementById_def find_None_iff)

lemma ensureVideoAsset_frame:
  assumes "ensureVideoAsset l st = Inr (vid, st')"
  shows "vid = vidIdOf (srcString l)" "latin1 (srcString l)"
    "st' = st\<lparr>assets := assets st'\<rparr>"
    "\<exists>v \<in> set (assets st'). v_id v = vid"
    "set (assets st) \<subseteq> set (assets st')"
  using assms
  by (auto simp: ensureVideoAsset_eq getElementById_None split: if_splits)

lemma spawnLayer_null: "spawnLayer st None = Inr st"
  by (simp add: spawnLayer_def)

lemma spawnLayer_invalid: "\<not> validLayer l \<Longrightarrow> spawnLayer st (Some l) = Inr st"
  by (auto simp: spawnLayer_def validLayer_cases)

lemma spawnLayer_valid:
  assumes "validLayer l"
  shows "spawnLayer st (Some l) =
     (if l_type l = Some (js ''video'')
      then (case ensureVideoAsset l st of
              Inl e \<Rightarrow> Inl e
            | Inr (vid, st') \<Rightarrow> Inr (attach (overlayOf (clock st) l) st'))
      else Inr (attach (overlayOf (clock st) l) st))"
proof -
  from assms consider
      "l_type l = Some (js ''image'')" | "l_type l = Some (js ''gif'')"
    | "l_type l = Some (js ''model'')" | "l_type l = Some (js ''video'')"
    by (auto simp: validLayer_cases)
  then show ?thesis
  proof cases
    case 1
    with assms show ?thesis
      by (simp add: spawnLayer_def validLayer_cases kinds_distinct truthy_def
          addImageLayer_def overlayOf_def)
  next
    case 2
    with assms show ?thesis
      by (simp add: spawnLayer_def validLayer_cases kinds_distinct truthy_def
          addImageLayer_def overlayOf_def)
  next
    case 3
    with assms show ?thesis
      by (simp add: spawnLayer_def validLayer_cases kinds_distinct truthy_def
          addModelLayer_def overlayOf_def)
  next
    case 4
    with assms show ?thesis
      by (auto simp: spawnLayer_def validLayer_cases kinds_distinct truthy_def
          addVideoLayer_def overlayOf_def ensureVideoAsset_eq split: sum.splits)
  qed
qed


lemma extends_refl: "extends st [] st"
  by (simp add: extends_def)

lemma extends_attach:
  "set (assets st) \<subseteq> set as \<Longrightarrow> extends st [e] (attach e (st\<lparr>assets := as\<rparr>))"
  by (simp add: extends_def)


lemma extendsD:
  assumes "extends st es st'"
  shows "status_log st' = status_log st" "igBtn_href st' = igBtn_href st"
    "videoBtn_display st' = videoBtn_display st" "startBtn_disabled st' = startBtn_disabled st"
    "stopBtn_disabled st' = stopBtn_disabled st" "anchor_visible st' = anchor_visible st"
    "scene_shown st' = scene_shown st" "tracker_running st' = tracker_running st"
    "clock st' = clock st"
    "next_ref st' = next_ref st + length es"
    "spawnedEntities st' = spawnedEntities st @ [next_ref st ..< next_ref st + length es]"
    "anchor_children st' = anchor_children st @ [next_ref st ..< next_ref st + length es]"
    "\<forall>r < next_ref st. ents st' r = ents st r"
    "map (ents st') [next_ref st ..< next_ref st + length es] = map Some es"
    "set (assets st) \<subseteq> set (assets st')"
  using assms unfolding extends_def by blast+

lemma extends_trans:
  assumes a: "extends st es1 st1" and b: "extends st1 es2 st2"
  shows "extends st (es1 @ es2) st2"
proof -
  let ?n = "next_ref st"
  note A = extendsD[OF a] and B = extendsD[OF b]
  have n1: "next_ref st1 = ?n + length es1" by (rule A(10))
  have a1: "\<forall>r < ?n. ents st1 r = ents st r" by (rule A(13))
  have b1: "\<forall>r < ?n + length es1. ents st2 r = ents st1 r"
    using B(13) unfolding n1 .
  have old: "\<forall>r < ?n. ents st2 r = ents st r"
  proof (intro allI impI)
    fix r assume "r < ?n"
    then show "ents st2 r = ents st r" using a1 b1 by simp
  qed
  have "map (ents st2) [?n ..< ?n + length es1] = map (ents st1) [?n ..< ?n + length es1]"
    using b1 by simp
  also have "\<dots> = map Some es1" by (rule A(14))
  finally have m1: "map (ents st2) [?n ..< ?n + length es1] = map Some es1" .
  have m2: "map (ents st2) [?n + length es1 ..< ?n + length es1 + length es2] = map Some es2"
    using B(14) unfolding n1 .
  have split: "[?n ..< ?n + length (es1 @ es2)] =
                 [?n ..< ?n + length es1] @ [?n + length es1 ..< ?n + length es1 + length es2]"
    using upt_add_eq_append[of ?n "?n + length es1" "length es2"] by (simp add: add.assoc)
  have m: "map (ents st2) [?n ..< ?n + length (es1 @ es2)] = map Some (es1 @ es2)"
    unfolding split by (simp only: map_append m1 m2)
  have sub: "set (assets st) \<subseteq> set (assets st2)"
    using A(15) B(15) by (rule subset_trans)
  have sp: "spawnedEntities st2 = spawnedEntities st @ [?n ..< ?n + length (es1 @ es2)]"
    unfolding split using B(11) unfolding n1 A(11) by simp
  have ac: "anchor_children st2 = anchor_children st @ [?n ..< ?n + length (es1 @ es2)]"
    unfolding split using B(12) unfolding n1 A(12) by simp
  have nr: "next_ref st2 = ?n + length (es1 @ es2)"
    using B(10) unfolding n1 by simp
  have fr: "status_log st2 = status_log st" "igBtn_href st2 = igBtn_href st"
     "videoBtn_display st2 = videoBtn_display st"
     "startBtn_disabled st2 = startBtn_disabled st"
     "stopBtn_disabled st2 = stopBtn_disabled st"
     "anchor_visible st2 = anchor_visible st" "scene_shown st2 = scene_shown st"
     "tracker_running st2 = tracker_running st" "clock st2 = clock st"
    using A(1-9) B(1-9) by simp_all
  show ?thesis
    unfolding extends_def by (intro conjI fr nr sp ac old m sub)
qed

lemma spawnLayer_extends:
  assumes "spawnLayer st entry = Inr st'"
  shows "extends st (map (overlayOf (clock st)) (validLayers [entry])) st'"
proof (cases entry)
  case None
  with assms show ?thesis by (simp add: spawnLayer_null extends_refl)
next
  case (Some l)
  show ?thesis
  proof (cases "validLayer l")
    case False
    with assms Some show ?thesis by (simp add: spawnLayer_invalid extends_refl)
  next
    case True
    show ?thesis
    proof (cases "l_type l = Some (js ''video'')")
      case False
      with assms Some True have "st' = attach (overlayOf (clock st) l) (st\<lparr>assets := assets st\<rparr>)"
        by (simp add: spawnLayer_valid)
      then show ?thesis using Some True extends_attach[of st "assets st"] by simp
    next
      case video: True
      with assms Some True obtain vid st1 where
        ev: "ensureVideoAsset l st = Inr (vid, st1)" and
        st': "st' = attach (overlayOf (clock st) l) st1"
        by (auto simp: spawnLayer_valid split: sum.splits)
      have "st1 = st\<lparr>assets := assets st1\<rparr>" "set (assets st) \<subseteq> set (assets st1)"
        using ensureVideoAsset_frame[OF ev] by auto
      then show ?thesis
        using Some True st' extends_attach[of st "assets st1" "overlayOf (clock st) l"] by simp
    qed
  qed
qed

lemma validLayers_Cons: "validLayers (x # xs) = validLayers [x] @ validLayers xs"
  by (cases x) auto

lemma spawnLayers_extends:
  "spawnLayers st ls = (st', None) \<Longrightarrow>
     extends st (map (overlayOf (clock st)) (validLayers ls)) st'"
proof (induction ls arbitrary: st)
  case Nil
  then show ?case by (simp add: extends_refl)
next
  case (Cons entry rest)
  from Cons.prems obtain st1 where
    s1: "spawnLayer st entry = Inr st1" and s2: "spawnLayers st1 rest = (st', None)"
    by (auto split: sum.splits)
  have e1: "extends st (map (overlayOf (clock st)) (validLayers [entry])) st1"
    using s1 by (rule spawnLayer_extends)
  then have c: "clock st1 = clock st" by (simp add: extends_def)
  have e2: "extends st1 (map (overlayOf (clock st)) (validLayers rest)) st'"
    using Cons.IH[OF s2] c by simp
  show ?case
    using extends_trans[OF e1 e2] by (subst validLayers_Cons) simp
qed

lemma spawnLayers_error:
  "spawnLayers st ls = (st', Some err) \<Longrightarrow>
     \<exists>es. extends st es st' \<and> length es \<le> length (validLayers ls)"
proof (induction ls arbitrary: st)
  case Nil
  then show ?case by simp
next
  case (Cons entry rest)
  show ?case
  proof (cases "spawnLayer st entry")
    case (Inl e)
    with Cons.prems have "st' = st" by simp
    then show ?thesis using extends_refl[of st] by auto
  next
    case (Inr st1)
    with Cons.prems have s2: "spawnLayers st1 rest = (st', Some err)" by simp
    from Cons.IH[OF s2] obtain es where
      e2: "extends st1 es st'" and le: "length es \<le> length (validLayers rest)" by blast
    have e1: "extends st (map (overlayOf (clock st)) (validLayers [entry])) st1"
      using Inr by (rule spawnLayer_extends)
    have "length (map (overlayOf (clock st)) (validLayers [entry]) @ es)
            \<le> length (validLayers (entry # rest))"
      using le by (subst validLayers_Cons) simp
    then show ?thesis using extends_trans[OF e1 e2] by blast
  qed
qed

section \<open>Auxiliary facts about loading a card and about the handlers\<close>

lemma clearAnchor_fields [simp]:
  "status_log (clearAnchor st) = status_log st"
  "igBtn_href (clearAnchor st) = igBtn_href st"
  "videoBtn_display (clearAnchor st) = videoBtn_display st"
  "startBtn_disabled (clearAnchor st) = startBtn_disabled st"
  "stopBtn_disabled (clearAnchor st) = stopBtn_disabled st"
  "anchor_visible (clearAnchor st) = anchor_visible st"
  "anchor_children (clearAnchor st) = []"
  "spawnedEntities (clearAnchor st) = spawnedEntities st"
  "ents (clearAnchor st) = ents st"
  "next_ref (clearAnchor st) = next_ref st"
  "assets (clearAnchor st) = assets st"
  "scene_shown (clearAnchor st) = scene_shown st"
  "tracker_running (clearAnchor st) = tracker_running st"
  "clock (clearAnchor st) = clock st"
  by (simp_all add: clearAnchor_def)

lemma some_video_iff:
  "some_video ls = Inr b \<Longrightarrow> b \<longleftrightarrow> (\<exists>l. Some l \<in> set ls \<and> l_type l = Some (js ''video''))"
proof (induction ls rule: some_video.induct)
  case 1
  then show ?case by simp
next
  case (2 ls)
  then show ?case by simp
next
  case (3 l ls)
  then show ?case by (auto split: if_splits)
qed

lemma spawnLayers_videos:
  "spawnLayers st ls = (st', None) \<Longrightarrow> l \<in> set (validLayers ls) \<Longrightarrow>
     l_type l = Some (js ''video'') \<Longrightarrow> \<exists>v \<in> set (assets st'). v_id v = vidIdOf (srcString l)"
proof (induction ls arbitrary: st)
  case Nil
  then show ?case by simp
next
  case (Cons entry rest)
  from Cons.prems(1) obtain st1 where
    s1: "spawnLayer st entry = Inr st1" and s2: "spawnLayers st1 rest = (st', None)"
    by (auto split: sum.splits)
  from Cons.prems(2) have "l \<in> set (validLayers [entry]) \<or> l \<in> set (validLayers rest)"
    by (subst (asm) validLayers_Cons) auto
  then show ?case
  proof
    assume "l \<in> set (validLayers rest)"
    then show ?thesis using Cons.IH[OF s2] Cons.prems(3) by blast
  next
    assume "l \<in> set (validLayers [entry])"
    then have entry: "entry = Some l" and v: "validLayer l"
      by (cases entry; auto split: if_splits)+
    from s1 entry v Cons.prems(3) obtain vid st0 where
      ev: "ensureVideoAsset l st = Inr (vid, st0)" and
      st1: "st1 = attach (overlayOf (clock st) l) st0"
      by (auto simp: spawnLayer_valid split: sum.splits)
    from ensureVideoAsset_frame[OF ev] obtain v where
      "v \<in> set (assets st0)" "v_id v = vidIdOf (srcString l)" by blast
    then have "v \<in> set (assets st1)" using st1 by simp
    moreover have "set (assets st1) \<subseteq> set (assets st')"
      using extendsD(15)[OF spawnLayers_extends[OF s2]] .
    ultimately show ?thesis using \<open>v_id v = vidIdOf (srcString l)\<close> by blast
  qed
qed

lemma overlayOf_children:
  "VideoPlane vid \<in> set (e_children (overlayOf now l)) \<Longrightarrow>
     l_type l = Some (js ''video'') \<and> vid = vidIdOf (srcString l)"
  by (auto simp: overlayOf_def split: if_splits)

lemma buildCard_success:
  assumes "buildCard ls st = (st', None)"
  obtains b st2 where
    "some_video ls = Inr b"
    "spawnLayers ((clearAnchor (st\<lparr>videoBtn_display :=
         (if b then js ''inline-block'' else js ''none'')\<rparr>))\<lparr>spawnedEntities := []\<rparr>) ls = (st2, None)"
    "st' = setAnchorVisible False (hideAllOverlaysAndReset (showScene False (setStatus Ready st2)))"
  using assms
  by (auto simp: buildCard_def showVideoButtonIfNeeded_def split: sum.splits prod.splits option.splits)

lemma main_success:
  assumes "main idParam fetched st0 = (st', None)"
  obtains config chosen st3 where
    "loadJSON fetched = Inr config"
    "chooseCard config (getCardIdFromUrl idParam) = Some chosen"
    "buildCard (clampLayers (layersOrEmpty chosen)) st3 = (st', None)"
    "clock st3 = clock st0" "next_ref st3 = next_ref st0"
    "anchor_visible st3 = anchor_visible st0"
    "clampLayers (layersOrEmpty chosen) =
       take MAX_LAYERS (configuredLayers config (getCardIdFromUrl idParam))"
  using assms
  by (auto simp: main_def Let_def configuredLayers_def clampLayers_def
      split: sum.splits option.splits layers_val.splits if_splits)


lemma extends_nth:
  assumes "extends st es st'" and "i < length es"
  shows "ents st' (next_ref st + i) = Some (es ! i)"
proof -
  have "map (ents st') [next_ref st ..< next_ref st + length es] ! i = map Some es ! i"
    using extendsD(14)[OF assms(1)] by simp
  then show ?thesis using assms(2) by simp
qed

lemma sameOverlays_bound:
  assumes "overlaysBound st" and "sameOverlays st st'"
  shows "overlaysBound st'"
  unfolding overlaysBound_def
proof
  fix r assume "r \<in> set (spawnedEntities st')"
  then have r: "r \<in> set (spawnedEntities st)" using assms(2) by (simp add: sameOverlays_def)
  with assms(1) obtain e where e: "ents st r = Some e"
    and vids: "\<forall>vid. VideoPlane vid \<in> set (e_children e) \<longrightarrow> (\<exists>v \<in> set (assets st). v_id v = vid)"
    unfolding overlaysBound_def by blast
  from assms(2) e obtain e' where e': "ents st' r = Some e'" "e_children e' = e_children e"
    unfolding sameOverlays_def by blast
  have "\<forall>vid. VideoPlane vid \<in> set (e_children e') \<longrightarrow> (\<exists>v \<in> set (assets st'). v_id v = vid)"
  proof (intro allI impI)
    fix vid assume "VideoPlane vid \<in> set (e_children e')"
    with vids e'(2) obtain v where "v \<in> set (assets st)" "v_id v = vid" by auto
    then have "vid \<in> v_id ` set (assets st')"
      using assms(2) unfolding sameOverlays_def by blast
    then show "\<exists>v \<in> set (assets st'). v_id v = vid" by auto
  qed
  with e' show "\<exists>e. ents st' r = Some e \<and>
      (\<forall>vid. VideoPlane vid \<in> set (e_children e) \<longrightarrow> (\<exists>v \<in> set (assets st'). v_id v = vid))"
    by blast
qed

lemma sameOverlays_refl: "sameOverlays st st"
  by (simp add: sameOverlays_def)

lemma sameOverlays_trans: "sameOverlays a b \<Longrightarrow> sameOverlays b c \<Longrightarrow> sameOverlays a c"
  unfolding sameOverlays_def by (metis (no_types, lifting))

lemma resetVideo_ids: "v_id ` set (map resetVideo vs) = v_id ` set vs"
  by (induction vs) auto

lemma sameOverlays_hideAll: "sameOverlays st (hideAllOverlaysAndReset st)"
  by (auto simp: sameOverlays_def fold_setEntityVisible resetVideo_ids simp del: set_map)

lemma sameOverlays_setStatus: "sameOverlays st (setStatus m st)"
  by (simp add: sameOverlays_def)

lemma sameOverlays_setAnchorVisible: "sameOverlays st (setAnchorVisible b st)"
  by (simp add: sameOverlays_def)

lemma sameOverlays_showScene: "sameOverlays st (showScene b st)"
  by (simp add: sameOverlays_def)

lemma onTargetFound_fields [simp]:
  "spawnedEntities (onTargetFound st) = spawnedEntities st"
  "assets (onTargetFound st) = assets st"
  "anchor_visible (onTargetFound st) = map_option (\<lambda>_. True) (anchor_visible st)"
  "ents (onTargetFound st) = fold (setEntityVisible True) (spawnedEntities st) (ents st)"
  by (simp_all add: onTargetFound_def Let_def)

lemma sameOverlays_onTargetFound: "sameOverlays st (onTargetFound st)"
  by (auto simp: sameOverlays_def fold_setEntityVisible)

lemma sameOverlays_onTargetLost: "sameOverlays st (onTargetLost st)"
  unfolding onTargetLost_def
  by (rule sameOverlays_trans[OF sameOverlays_setStatus sameOverlays_hideAll])

lemma sameOverlays_flags:
  "sameOverlays st (st\<lparr>tracker_running := a, startBtn_disabled := b, stopBtn_disabled := c\<rparr>)"
  by (simp add: sameOverlays_def)

lemma sameOverlays_startClick: "sameOverlays st (fst (startClick ready started st))"
proof -
  have 1: "sameOverlays st (hideAllOverlaysAndReset (showScene True (setStatus StartingAR st)))"
    by (rule sameOverlays_trans[OF sameOverlays_setStatus
          sameOverlays_trans[OF sameOverlays_showScene sameOverlays_hideAll]])
  show ?thesis
    by (auto simp: startClick_def Let_def split: option.splits
        intro: sameOverlays_trans[OF sameOverlays_setStatus sameOverlays_setStatus]
               sameOverlays_trans[OF 1 sameOverlays_setStatus]
               sameOverlays_trans[OF 1 sameOverlays_trans[OF sameOverlays_flags sameOverlays_setStatus]])
qed

lemma sameOverlays_stopClick: "sameOverlays st (fst (stopClick ready stopped st))"
proof -
  have 1: "sameOverlays st (setAnchorVisible False (hideAllOverlaysAndReset st))"
    by (rule sameOverlays_trans[OF sameOverlays_hideAll sameOverlays_setAnchorVisible])
  have 2: "sameOverlays st (showScene False (setAnchorVisible False (hideAllOverlaysAndReset st)))"
    by (rule sameOverlays_trans[OF 1 sameOverlays_showScene])
  show ?thesis
    by (auto simp: stopClick_def Let_def split: option.splits
        intro: sameOverlays_refl 1
               sameOverlays_trans[OF 2 sameOverlays_trans[OF sameOverlays_flags sameOverlays_setStatus]])
qed

lemma sameOverlays_videoClick: "sameOverlays st (videoClick playable st)"
proof -
  have "v_id ` set (map (\<lambda>v. if playable v then v\<lparr>v_muted := False, v_paused := False\<rparr>
                              else v\<lparr>v_muted := False\<rparr>) vs) = v_id ` set vs" for vs
    by (induction vs) auto
  then show ?thesis
    by (simp add: sameOverlays_def videoClick_def del: set_map)
qed

lemma sameOverlays_handle: "sameOverlays st (handle ev st)"
  by (cases ev)
    (simp_all add: sameOverlays_onTargetFound sameOverlays_onTargetLost
      sameOverlays_startClick sameOverlays_stopClick sameOverlays_videoClick)

lemma overlaysBound_events: "overlaysBound st \<Longrightarrow> overlaysBound (fold handle evs st)"
proof (induction evs arbitrary: st)
  case Nil
  then show ?case by simp
next
  case (Cons ev evs)
  have "overlaysBound (handle ev st)"
    using Cons.prems sameOverlays_handle by (rule sameOverlays_bound)
  then show ?case using Cons.IH by simp
qed

lemma handle_anchor: "anchor_visible st \<noteq> None \<Longrightarrow> anchor_visible (handle ev st) \<noteq> None"
  by (cases ev)
    (auto simp: onTargetLost_def startClick_def stopClick_def videoClick_def Let_def
      split: option.splits)

lemma events_anchor: "anchor_visible st \<noteq> None \<Longrightarrow> anchor_visible (fold handle evs st) \<noteq> None"
proof (induction evs arbitrary: st)
  case Nil
  then show ?case by simp
next
  case (Cons ev evs)
  have "anchor_visible (handle ev st) \<noteq> None"
    using Cons.prems by (rule handle_anchor)
  then show ?case using Cons.IH by simp
qed


lemma buildCard_overlays:
  assumes "buildCard ls st = (st', None)"
  shows "spawnedEntities st' = [next_ref st ..< next_ref st + length (validLayers ls)]"
    and "map (ents st') (spawnedEntities st') =
           map (\<lambda>l. Some ((overlayOf (clock st) l)\<lparr>e_visible := False\<rparr>)) (validLayers ls)"
    and "videoBtn_display st' =
           (if \<exists>l. Some l \<in> set ls \<and> l_type l = Some (js ''video'')
            then js ''inline-block'' else js ''none'')"
    and "anchor_visible st' = map_option (\<lambda>_. False) (anchor_visible st)"
    and "status_log st' = status_log st @ [Ready]"
    and "overlaysBound st'"
proof -
  from assms obtain b st2 where
    b: "some_video ls = Inr b" and
    loop: "spawnLayers ((clearAnchor (st\<lparr>videoBtn_display :=
         (if b then js ''inline-block'' else js ''none'')\<rparr>))\<lparr>spawnedEntities := []\<rparr>) ls = (st2, None)" and
    st': "st' = setAnchorVisible False (hideAllOverlaysAndReset (showScene False (setStatus Ready st2)))"
    by (rule buildCard_success)
  let ?st5 = "(clearAnchor (st\<lparr>videoBtn_display :=
         (if b then js ''inline-block'' else js ''none'')\<rparr>))\<lparr>spawnedEntities := []\<rparr>"
  let ?n = "next_ref st"
  let ?vl = "validLayers ls"
  let ?ovs = "map (overlayOf (clock st)) ?vl"
  have ext: "extends ?st5 ?ovs st2"
    using spawnLayers_extends[OF loop] by simp
  note E = extendsD[OF ext]
  have sp2: "spawnedEntities st2 = [?n ..< ?n + length ?vl]"
    using E(11) by simp
  show sp: "spawnedEntities st' = [?n ..< ?n + length ?vl]"
    using sp2 by (simp add: st')
  have ents': "ents st' r = (if r \<in> set (spawnedEntities st2)
                              then map_option (\<lambda>e. e\<lparr>e_visible := False\<rparr>) (ents st2 r)
                              else ents st2 r)" for r
    by (simp add: st' fold_setEntityVisible)
  have "map (ents st') (spawnedEntities st') =
          map (map_option (\<lambda>e. e\<lparr>e_visible := False\<rparr>)) (map (ents st2) [?n ..< ?n + length ?vl])"
    unfolding sp using ents' sp2 by simp
  also have "map (ents st2) [?n ..< ?n + length ?vl] = map Some ?ovs"
    using E(14) by simp
  finally show "map (ents st') (spawnedEntities st') =
           map (\<lambda>l. Some ((overlayOf (clock st) l)\<lparr>e_visible := False\<rparr>)) ?vl"
    by (simp add: comp_def)
  show "videoBtn_display st' =
           (if \<exists>l. Some l \<in> set ls \<and> l_type l = Some (js ''video'')
            then js ''inline-block'' else js ''none'')"
    using E(3) some_video_iff[OF b] by (simp add: st')
  show "anchor_visible st' = map_option (\<lambda>_. False) (anchor_visible st)"
    using E(6) by (simp add: st' option.map_comp comp_def)
  show "status_log st' = status_log st @ [Ready]"
    using E(1) by (simp add: st')
  have bound2: "overlaysBound st2"
    unfolding overlaysBound_def
  proof
    fix r assume "r \<in> set (spawnedEntities st2)"
    then obtain i where i: "i < length ?vl" and r: "r = ?n + i"
      unfolding sp2 by (auto simp: nat_le_iff_add)
    have e: "ents st2 r = Some (overlayOf (clock st) (?vl ! i))"
      using extends_nth[OF ext, of i] i r by simp
    have "\<exists>v \<in> set (assets st2). v_id v = vid"
      if "VideoPlane vid \<in> set (e_children (overlayOf (clock st) (?vl ! i)))" for vid
    proof -
      from overlayOf_children[OF that]
      have "l_type (?vl ! i) = Some (js ''video'')" "vid = vidIdOf (srcString (?vl ! i))"
        by simp_all
      moreover have "?vl ! i \<in> set ?vl" using i by simp
      ultimately show ?thesis using spawnLayers_videos[OF loop] by blast
    qed
    with e show "\<exists>e. ents st2 r = Some e \<and>
        (\<forall>vid. VideoPlane vid \<in> set (e_children e) \<longrightarrow> (\<exists>v \<in> set (assets st2). v_id v = vid))"
      by blast
  qed
  have "sameOverlays st2 st'"
    unfolding st'
    by (rule sameOverlays_trans[OF sameOverlays_setStatus
          sameOverlays_trans[OF sameOverlays_showScene
            sameOverlays_trans[OF sameOverlays_hideAll sameOverlays_setAnchorVisible]]])
  with bound2 show "overlaysBound st'" by (rule sameOverlays_bound)
qed

section \<open>Animation (claim C5)\<close>








section \<open>Starting the tracker (claim C7)\<close>

text \<open>
  Claim C7, for the start handler of both builds. When the tracking engine is not there
  yet, the click only writes "Starting AR" and the "not ready" text to the readout: the two
  buttons, the tracker and everything else are as before. A later click with the engine
  there and a \<open>start()\<close> that resolves disables the start button, enables the stop
  button, has the tracker running and reports "AR started". When \<open>start()\<close> rejects, no
  error leaves the handler, the readout says so, and buttons and tracker are unchanged.
\<close>

theorem C7_start_before_engine_ready:
  "(\<forall>click \<in> {startClick, startClick_mainjs}.
      click False started st = (st\<lparr>status_log := status_log st @ [StartingAR, NotReady]\<rparr>, None) \<and>
      (let st' = fst (click True None (fst (click False started st)))
       in snd (click True None (fst (click False started st))) = None \<and>
          startBtn_disabled st' \<and> \<not> stopBtn_disabled st' \<and> tracker_running st' \<and>
          last (status_log st') = ARStarted) \<and>
      (let st' = fst (click True (Some err) st)
       in snd (click True (Some err) st) = None \<and>
          last (status_log st') = CouldNotStart \<and>
          startBtn_disabled st' = startBtn_disabled st \<and>
          stopBtn_disabled st' = stopBtn_disabled st \<and>
          tracker_running st' = tracker_running st))"
  by (simp add: startClick_def startClick_mainjs_def Let_def setStatus_def)

text \<open>Claim C7 on the example page, with a rejection of the tracker.\<close>

theorem C7_witness:
  "startClick False None ex_page = (ex_page\<lparr>status_log := [StartingAR, NotReady]\<rparr>, None) \<and>
   tracker_running (fst (startClick True None (fst (startClick False None ex_page)))) \<and>
   snd (startClick True (Some TrackerRejected) ex_page) = None \<and>
   \<not> tracker_running (fst (startClick_mainjs True (Some TrackerRejected) ex_page))"
  using C7_start_before_engine_ready [where started = None and st = ex_page and err = TrackerRejected]
  by (simp add: ex_page_def Let_def startClick_def startClick_mainjs_def setStatus_def
      hideAllOverlaysAndReset_def setAnchorVisible_def showScene_def)

section \<open>Target found and lost (claim C4)\<close>

lemma main_overlaysBound:
  assumes "main idParam fetched st0 = (st, None)"
  shows "overlaysBound st" and "anchor_visible st0 \<noteq> None \<Longrightarrow> anchor_visible st \<noteq> None"
proof -
  from assms obtain config chosen st3 where
    b: "buildCard (clampLayers (layersOrEmpty chosen)) st3 = (st, None)"
    and a: "anchor_visible st3 = anchor_visible st0"
    by (rule main_success)
  show "overlaysBound st" using b by (rule buildCard_overlays)
  show "anchor_visible st0 \<noteq> None \<Longrightarrow> anchor_visible st \<noteq> None"
    using buildCard_overlays(4)[OF b] a by simp
qed

lemma found_shows:
  assumes "overlaysBound st" and "r \<in> set (spawnedEntities st)"
  shows "\<exists>e. ents (onTargetFound st) r = Some e \<and> e_visible e"
proof -
  from assms obtain e where "ents st r = Some e" unfolding overlaysBound_def by blast
  then show ?thesis using assms(2) by (simp add: fold_setEntityVisible)
qed

lemma hideAll_overlays:
  assumes "overlaysBound st" and "r \<in> set (spawnedEntities st)"
  shows "\<exists>e. ents (hideAllOverlaysAndReset st) r = Some e \<and> \<not> e_visible e \<and>
           (\<forall>vid. VideoPlane vid \<in> set (e_children e) \<longrightarrow>
              (\<exists>v \<in> set (assets (hideAllOverlaysAndReset st)).
                 v_id v = vid \<and> v_paused v \<and> v_currentTime v = 0 \<and> v_muted v))"
proof -
  from assms obtain e where e: "ents st r = Some e"
    and vids: "\<forall>vid. VideoPlane vid \<in> set (e_children e) \<longrightarrow> (\<exists>v \<in> set (assets st). v_id v = vid)"
    unfolding overlaysBound_def by blast
  have "ents (hideAllOverlaysAndReset st) r = Some (e\<lparr>e_visible := False\<rparr>)"
    using e assms(2) by (rule hideAll_hides(2)[rotated])
  moreover have "\<exists>v \<in> set (assets (hideAllOverlaysAndReset st)).
                 v_id v = vid \<and> v_paused v \<and> v_currentTime v = 0 \<and> v_muted v"
    if "VideoPlane vid \<in> set (e_children e)" for vid
  proof -
    from vids that obtain v where "v \<in> set (assets st)" "v_id v = vid" by blast
    then have "resetVideo v \<in> set (assets (hideAllOverlaysAndReset st))" by simp
    then show ?thesis using \<open>v_id v = vid\<close> by (intro bexI[of _ "resetVideo v"]) simp_all
  qed
  ultimately show ?thesis by simp
qed

text \<open>
  Claim C4. Take a card that \<open>main\<close> has loaded on a page whose anchor is an entity, and
  any events delivered since. When \<open>targetFound\<close> fires, the anchor and every element of
  \<open>spawnedEntities\<close> are visible. When \<open>targetLost\<close> fires next, the anchor and every
  element of \<open>spawnedEntities\<close> are hidden, the video element behind every video plane is
  paused, at position 0 and muted, and so is every video under \<open>a-assets\<close>.
\<close>

theorem C4_target_found_then_lost:
  assumes "main idParam fetched st0 = (st1, None)"
    and "anchor_visible st0 \<noteq> None"
    and "st = fold handle evs st1"
  shows "anchor_visible (onTargetFound st) = Some True \<and>
         (\<forall>r \<in> set (spawnedEntities (onTargetFound st)).
            \<exists>e. ents (onTargetFound st) r = Some e \<and> e_visible e) \<and>
         anchor_visible (onTargetLost (onTargetFound st)) = Some False \<and>
         (\<forall>r \<in> set (spawnedEntities (onTargetLost (onTargetFound st))).
            \<exists>e. ents (onTargetLost (onTargetFound st)) r = Some e \<and> \<not> e_visible e \<and>
                (\<forall>vid. VideoPlane vid \<in> set (e_children e) \<longrightarrow>
                   (\<exists>v \<in> set (assets (onTargetLost (onTargetFound st))).
                      v_id v = vid \<and> v_paused v \<and> v_currentTime v = 0 \<and> v_muted v))) \<and>
         (\<forall>v \<in> set (assets (onTargetLost (onTargetFound st))).
            v_paused v \<and> v_currentTime v = 0 \<and> v_muted v)"
proof -
  have b: "overlaysBound st"
    unfolding assms(3) using main_overlaysBound(1)[OF assms(1)] by (rule overlaysBound_events)
  have "anchor_visible st1 \<noteq> None"
    using assms(1,2) by (rule main_overlaysBound(2))
  then have a: "anchor_visible st \<noteq> None"
    unfolding assms(3) by (rule events_anchor)
  let ?f = "onTargetFound st"
  have bf: "overlaysBound ?f"
    using b sameOverlays_onTargetFound by (rule sameOverlays_bound)
  have bs: "overlaysBound (setStatus TargetLost ?f)"
    using bf sameOverlays_setStatus by (rule sameOverlays_bound)
  have 1: "anchor_visible ?f = Some True" using a by auto
  have 2: "\<forall>r \<in> set (spawnedEntities ?f). \<exists>e. ents ?f r = Some e \<and> e_visible e"
    using found_shows[OF b] by simp
  have 3: "anchor_visible (onTargetLost ?f) = Some False"
    using a by (auto simp: onTargetLost_def)
  have 4: "\<forall>r \<in> set (spawnedEntities (onTargetLost ?f)).
            \<exists>e. ents (onTargetLost ?f) r = Some e \<and> \<not> e_visible e \<and>
                (\<forall>vid. VideoPlane vid \<in> set (e_children e) \<longrightarrow>
                   (\<exists>v \<in> set (assets (onTargetLost ?f)).
                      v_id v = vid \<and> v_paused v \<and> v_currentTime v = 0 \<and> v_muted v))"
    unfolding onTargetLost_def using hideAll_overlays[OF bs] by simp
  have 5: "\<forall>v \<in> set (assets (onTargetLost ?f)). v_paused v \<and> v_currentTime v = 0 \<and> v_muted v"
    unfolding onTargetLost_def using hideAll_hides(3) by blast
  from 1 2 3 4 5 show ?thesis by (intro conjI)
qed

text \<open>The example card loads without error.\<close>

lemma ex_main_ok: "main None (Response 200 (Some ex_config)) ex_page =
    (fst (main None (Response 200 (Some ex_config)) ex_page), None)"
proof -
  have "snd (main None (Response 200 (Some ex_config)) ex_page) = None" by code_simp
  then show ?thesis by (simp add: prod_eq_iff)
qed

text \<open>Claim C4 on the example card: three overlays, shown and then hidden.\<close>

theorem C4_witness:
  "anchor_visible ex_page \<noteq> None \<and>
   snd (main None (Response 200 (Some ex_config)) ex_page) = None \<and>
   spawnedEntities (fst (main None (Response 200 (Some ex_config)) ex_page)) = [0, 1, 2] \<and>
   anchor_visible (onTargetFound (fst (main None (Response 200 (Some ex_config)) ex_page))) = Some True \<and>
   (\<exists>e. ents (onTargetFound (fst (main None (Response 200 (Some ex_config)) ex_page))) 2
           = Some e \<and> e_visible e) \<and>
   anchor_visible (onTargetLost (onTargetFound (fst (main None (Response 200 (Some ex_config)) ex_page))))
     = Some False \<and>
   (\<exists>e. ents (onTargetLost (onTargetFound (fst (main None (Response 200 (Some ex_config)) ex_page)))) 2
           = Some e \<and> \<not> e_visible e)"
proof -
  have a: "anchor_visible ex_page \<noteq> None" by (simp add: ex_page_def)
  have s: "snd (main None (Response 200 (Some ex_config)) ex_page) = None" by code_simp
  have sp: "spawnedEntities (fst (main None (Response 200 (Some ex_config)) ex_page)) = [0, 1, 2]"
    by code_simp
  have e: "fst (main None (Response 200 (Some ex_config)) ex_page) =
             fold handle [] (fst (main None (Response 200 (Some ex_config)) ex_page))" by simp
  let ?m = "fst (main None (Response 200 (Some ex_config)) ex_page)"
  note T = C4_target_found_then_lost [OF ex_main_ok a e]
  from T have t1: "anchor_visible (onTargetFound ?m) = Some True" by (rule conjunct1)
  from T have t2: "\<forall>r \<in> set (spawnedEntities (onTargetFound ?m)).
            \<exists>e. ents (onTargetFound ?m) r = Some e \<and> e_visible e"
    by blast
  from T have t3: "anchor_visible (onTargetLost (onTargetFound ?m)) = Some False" by blast
  from T have t4: "\<forall>r \<in> set (spawnedEntities (onTargetLost (onTargetFound ?m))).
            \<exists>e. ents (onTargetLost (onTargetFound ?m)) r = Some e \<and> \<not> e_visible e"
    by blast
  have "2 \<in> set (spawnedEntities (onTargetFound ?m))"
    using sp by simp
  with t2 have t2': "\<exists>e. ents (onTargetFound ?m) 2 = Some e \<and> e_visible e"
    by (rule bspec)
  have "2 \<in> set (spawnedEntities (onTargetLost (onTargetFound ?m)))"
    using sp by (simp add: onTargetLost_def)
  with t4 have t4': "\<exists>e. ents (onTargetLost (onTargetFound ?m)) 2 = Some e \<and> \<not> e_visible e"
    by (rule bspec)
  from a s sp t1 t2' t3 t4' show ?thesis by (intro conjI)
qed

section \<open>Stopping (claim C3)\<close>




section \<open>How many overlays, and which (claims C1 and C9)\<close>

lemma has_type_and_src_simps:
  "has_type_and_src None = False"
  "has_type_and_src (Some l) = (l_type l \<noteq> None \<and> l_src l \<noteq> None)"
  by (simp_all add: has_type_and_src_def)

lemma validLayer_has: "validLayer l \<Longrightarrow> has_type_and_src (Some l)"
  by (auto simp: has_type_and_src_simps validLayer_def truthy_def split: option.splits)

lemma validLayers_le: "length (validLayers ls) \<le> length (filter has_type_and_src ls)"
proof (induction ls rule: validLayers.induct)
  case 1
  show ?case by simp
next
  case (2 rest)
  then show ?case by (simp add: has_type_and_src_simps)
next
  case (3 l rest)
  then show ?case using validLayer_has[of l] by auto
qed

lemma filter_take_le: "length (filter P (take n xs)) \<le> min n (length (filter P xs))"
proof -
  have "length (filter P (take n xs)) \<le> length (take n xs)" by (rule length_filter_le)
  then have 1: "length (filter P (take n xs)) \<le> n" by simp
  have "filter P xs = filter P (take n xs) @ filter P (drop n xs)"
    by (simp flip: filter_append)
  then have "length (filter P xs) = length (filter P (take n xs)) + length (filter P (drop n xs))"
    by simp
  then have 2: "length (filter P (take n xs)) \<le> length (filter P xs)" by simp
  from 1 2 show ?thesis by simp
qed

lemma buildCard_count:
  assumes "spawnedEntities st = []"
  shows "length (spawnedEntities (fst (buildCard ls st))) \<le> length (validLayers ls)"
proof (cases "showVideoButtonIfNeeded ls st")
  case (Inl e)
  then show ?thesis using assms by (simp add: buildCard_def)
next
  case (Inr st1)
  let ?st5 = "(clearAnchor st1)\<lparr>spawnedEntities := []\<rparr>"
  obtain st2 err where loop: "spawnLayers ?st5 ls = (st2, err)" by (cases "spawnLayers ?st5 ls")
  show ?thesis
  proof (cases err)
    case None
    have "spawnedEntities st2 = [next_ref ?st5 ..< next_ref ?st5 + length (validLayers ls)]"
      using extendsD(11)[OF spawnLayers_extends[OF loop[unfolded None]]] by simp
    then show ?thesis using Inr loop None by (simp add: buildCard_def)
  next
    case (Some e)
    from spawnLayers_error[OF loop[unfolded Some]] obtain es where
      ext: "extends ?st5 es st2" and le: "length es \<le> length (validLayers ls)" by blast
    have "spawnedEntities st2 = [next_ref ?st5 ..< next_ref ?st5 + length es]"
      using extendsD(11)[OF ext] by simp
    then show ?thesis using Inr loop Some le by (simp add: buildCard_def)
  qed
qed

lemma main_count:
  assumes "spawnedEntities st0 = []"
  shows "length (spawnedEntities (fst (main idParam fetched st0))) \<le>
           (case loadJSON fetched of
              Inl e \<Rightarrow> 0
            | Inr config \<Rightarrow>
                length (validLayers (take MAX_LAYERS
                  (configuredLayers config (getCardIdFromUrl idParam)))))"
proof (cases "loadJSON fetched")
  case (Inl e)
  then show ?thesis using assms by (simp add: main_def Let_def)
next
  case (Inr config)
  let ?cardId = "getCardIdFromUrl idParam"
  show ?thesis
  proof (cases "chooseCard config ?cardId")
    case None
    then show ?thesis using Inr assms by (simp add: main_def Let_def)
  next
    case (Some chosen)
    have cl: "clampLayers (layersOrEmpty chosen) = take MAX_LAYERS (configuredLayers config ?cardId)"
      using Some by (simp add: configuredLayers_def clampLayers_def split: layers_val.splits)
    obtain st3 where m: "main idParam fetched st0 = buildCard (clampLayers (layersOrEmpty chosen)) st3"
      and sp: "spawnedEntities st3 = []"
      using Inr Some assms by (simp add: main_def Let_def)
    show ?thesis
      unfolding m using buildCard_count[OF sp, of "clampLayers (layersOrEmpty chosen)"] Inr
      by (simp add: cl)
  qed
qed

lemma buildCard_missing_fields:
  assumes "\<forall>entry \<in> set ls. \<exists>l. entry = Some l \<and> (l_type l = None \<or> l_src l = None)"
  shows "snd (buildCard ls st) = None" and "spawnedEntities (fst (buildCard ls st)) = []"
proof -
  have sv: "\<exists>b. some_video ls = Inr b" using assms
  proof (induction ls rule: some_video.induct)
    case 1
    show ?case by auto
  next
    case (2 ls)
    then show ?case by simp
  next
    case (3 l ls)
    then show ?case by auto
  qed
  have loop: "spawnLayers s ls = (s, None)" for s using assms
  proof (induction ls)
    case Nil
    show ?case by simp
  next
    case (Cons entry rest)
    then obtain l where "entry = Some l" "l_type l = None \<or> l_src l = None" by auto
    then have "spawnLayer s entry = Inr s" by (auto simp: spawnLayer_def truthy_def)
    then show ?case using Cons by simp
  qed
  from sv obtain b where b: "some_video ls = Inr b" by blast
  show "snd (buildCard ls st) = None"
    by (simp add: buildCard_def showVideoButtonIfNeeded_def b loop)
  show "spawnedEntities (fst (buildCard ls st)) = []"
    by (simp add: buildCard_def showVideoButtonIfNeeded_def b loop)
qed

text \<open>
  Claim C1. For every request, every answer of the fetch and every page, the number of
  overlays that \<open>main\<close> leaves in \<open>spawnedEntities\<close> (also when it throws) is at most
  the minimum of 5 and the number of configured layers that have both \<open>type\<close> and \<open>src\<close>.
  A layer that lacks \<open>type\<close> or \<open>src\<close> leaves the state as it is and throws nothing; and
  when each of the first five entries is such a layer, \<open>main\<close> ends without error and
  without overlays.
\<close>

theorem C1_overlay_count_bound:
  "length (spawnedEntities (fst (main idParam fetched (initial page)))) \<le>
     min 5 (length (filter has_type_and_src
              (case loadJSON fetched of
                 Inl e \<Rightarrow> []
               | Inr config \<Rightarrow> configuredLayers config (getCardIdFromUrl idParam)))) \<and>
   (l_type l = None \<or> l_src l = None \<longrightarrow> spawnLayer st (Some l) = Inr st) \<and>
   (loadJSON fetched = Inr config \<and> chooseCard config (getCardIdFromUrl idParam) \<noteq> None \<and>
    (\<forall>entry \<in> set (take 5 (configuredLayers config (getCardIdFromUrl idParam))).
       \<exists>l. entry = Some l \<and> (l_type l = None \<or> l_src l = None)) \<longrightarrow>
      snd (main idParam fetched (initial page)) = None \<and>
      spawnedEntities (fst (main idParam fetched (initial page))) = [])"
proof (intro conjI impI)
  let ?cardId = "getCardIdFromUrl idParam"
  have sp: "spawnedEntities (initial page) = []" by (simp add: initial_def)
  show "length (spawnedEntities (fst (main idParam fetched (initial page)))) \<le>
     min 5 (length (filter has_type_and_src
              (case loadJSON fetched of
                 Inl e \<Rightarrow> []
               | Inr config \<Rightarrow> configuredLayers config ?cardId)))"
  proof (cases "loadJSON fetched")
    case (Inl e)
    then show ?thesis using main_count[OF sp, of idParam fetched] by simp
  next
    case (Inr config)
    let ?raw = "configuredLayers config ?cardId"
    have "length (spawnedEntities (fst (main idParam fetched (initial page)))) \<le>
            length (validLayers (take 5 ?raw))"
      using main_count[OF sp, of idParam fetched] Inr by (simp add: MAX_LAYERS_def)
    also have "\<dots> \<le> length (filter has_type_and_src (take 5 ?raw))" by (rule validLayers_le)
    also have "\<dots> \<le> min 5 (length (filter has_type_and_src ?raw))" by (rule filter_take_le)
    finally show ?thesis using Inr by simp
  qed
next
  assume "l_type l = None \<or> l_src l = None"
  then show "spawnLayer st (Some l) = Inr st" by (auto simp: spawnLayer_def truthy_def)
next
  let ?cardId = "getCardIdFromUrl idParam"
  assume h: "loadJSON fetched = Inr config \<and> chooseCard config ?cardId \<noteq> None \<and>
    (\<forall>entry \<in> set (take 5 (configuredLayers config ?cardId)).
       \<exists>l. entry = Some l \<and> (l_type l = None \<or> l_src l = None))"
  then obtain chosen where ch: "chooseCard config ?cardId = Some chosen" by auto
  have cl: "clampLayers (layersOrEmpty chosen) = take 5 (configuredLayers config ?cardId)"
    using ch by (simp add: configuredLayers_def clampLayers_def MAX_LAYERS_def split: layers_val.splits)
  obtain st3 where m: "main idParam fetched (initial page) =
      buildCard (clampLayers (layersOrEmpty chosen)) st3"
    using h ch by (simp add: main_def Let_def)
  have miss: "\<forall>entry \<in> set (clampLayers (layersOrEmpty chosen)).
       \<exists>l. entry = Some l \<and> (l_type l = None \<or> l_src l = None)"
    unfolding cl using h by blast
  show "snd (main idParam fetched (initial page)) = None"
    unfolding m using miss by (rule buildCard_missing_fields)
  show "spawnedEntities (fst (main idParam fetched (initial page))) = []"
    unfolding m using miss by (rule buildCard_missing_fields)
qed


text \<open>The card with five layers without \<open>src\<close> and a valid sixth.\<close>

lemma ex_six_layers:
  "configuredLayers ex_config_six (getCardIdFromUrl None) =
     [Some ex_video_nosrc, Some ex_video_nosrc, Some ex_video_nosrc,
      Some ex_video_nosrc, Some ex_video_nosrc, Some ex_image]"
  by (simp add: configuredLayers_def chooseCard_def getProperty_def ex_config_six_def
      getCardIdFromUrl_def DEFAULT_CARD_ID_def layersOrEmpty_def get_layers_def ex_six_def)

lemma ex_six_chosen: "chooseCard ex_config_six (getCardIdFromUrl None) \<noteq> None"
  by (simp add: chooseCard_def getProperty_def ex_config_six_def
      getCardIdFromUrl_def DEFAULT_CARD_ID_def)

lemma ex_six_loaded: "loadJSON (Response 200 (Some ex_config_six)) = Inr ex_config_six"
  by (simp add: loadJSON_def)

text \<open>Claim C1 on that card.\<close>

theorem C1_witness:
  "(l_type ex_video_nosrc = None \<or> l_src ex_video_nosrc = None) \<and>
   spawnLayer ex_page (Some ex_video_nosrc) = Inr ex_page \<and>
   take 5 (configuredLayers ex_config_six (getCardIdFromUrl None)) =
     [Some ex_video_nosrc, Some ex_video_nosrc, Some ex_video_nosrc,
      Some ex_video_nosrc, Some ex_video_nosrc] \<and>
   snd (main None (Response 200 (Some ex_config_six)) (initial ex_page)) = None \<and>
   spawnedEntities (fst (main None (Response 200 (Some ex_config_six)) (initial ex_page))) = [] \<and>
   length (spawnedEntities (fst (main None (Response 200 (Some ex_config_six)) (initial ex_page))))
     \<le> min 5 (length (filter has_type_and_src
                  (configuredLayers ex_config_six (getCardIdFromUrl None))))"
proof -
  have h1: "l_type ex_video_nosrc = None \<or> l_src ex_video_nosrc = None"
    by (simp add: ex_video_nosrc_def)
  have h0: "take 5 (configuredLayers ex_config_six (getCardIdFromUrl None)) =
     [Some ex_video_nosrc, Some ex_video_nosrc, Some ex_video_nosrc,
      Some ex_video_nosrc, Some ex_video_nosrc]"
    by (simp add: ex_six_layers)
  have h2: "\<forall>entry \<in> set (take 5 (configuredLayers ex_config_six (getCardIdFromUrl None))).
       \<exists>l. entry = Some l \<and> (l_type l = None \<or> l_src l = None)"
    unfolding h0 using h1 by simp
  note T = C1_overlay_count_bound [where idParam = None
      and fetched = "Response 200 (Some ex_config_six)" and page = ex_page
      and l = ex_video_nosrc and st = ex_page and config = ex_config_six]
  from T have t1: "length (spawnedEntities (fst (main None (Response 200 (Some ex_config_six))
        (initial ex_page))))
     \<le> min 5 (length (filter has_type_and_src
                  (configuredLayers ex_config_six (getCardIdFromUrl None))))"
    by (simp add: ex_six_loaded)
  from T h1 have t2: "spawnLayer ex_page (Some ex_video_nosrc) = Inr ex_page" by blast
  from T ex_six_loaded ex_six_chosen h2
  have t3: "snd (main None (Response 200 (Some ex_config_six)) (initial ex_page)) = None \<and>
      spawnedEntities (fst (main None (Response 200 (Some ex_config_six)) (initial ex_page))) = []"
    by blast
  from h1 t2 h0 t3 t1 show ?thesis by (intro conjI) blast+
qed


lemma ex_six_main_ok: "main None (Response 200 (Some ex_config_six)) ex_page =
    (fst (main None (Response 200 (Some ex_config_six)) ex_page), None)"
proof -
  have "snd (main None (Response 200 (Some ex_config_six)) ex_page) = None" by code_simp
  then show ?thesis by (simp add: prod_eq_iff)
qed


section \<open>The video button (claim C10)\<close>

text \<open>
  Claim C10. When \<open>main\<close> ends without error, the video button is shown exactly when one
  of the first five configured entries has \<open>type\<close> \<open>video\<close>, whatever its \<open>src\<close>. A layer
  of type \<open>video\<close> without a (non-empty) \<open>src\<close> leaves the state as it is, so no overlay
  and no video element is made for it; and if such a layer is among the first five
  entries the button is shown.
\<close>

theorem C10_video_button_before_src_check:
  assumes "main idParam fetched st0 = (st, None)" and "loadJSON fetched = Inr config"
  shows "videoBtn_display st =
           (if \<exists>l. Some l \<in> set (take 5 (configuredLayers config (getCardIdFromUrl idParam))) \<and>
                    l_type l = Some (js ''video'')
            then js ''inline-block'' else js ''none'') \<and>
         (\<forall>l s. l_type l = Some (js ''video'') \<and> \<not> truthy (l_src l) \<longrightarrow>
                  spawnLayer s (Some l) = Inr s) \<and>
         (\<forall>l. Some l \<in> set (take 5 (configuredLayers config (getCardIdFromUrl idParam))) \<and>
               l_type l = Some (js ''video'') \<and> \<not> truthy (l_src l) \<longrightarrow>
               videoBtn_display st = js ''inline-block'')"
proof -
  let ?raw = "configuredLayers config (getCardIdFromUrl idParam)"
  from assms(1) obtain config' chosen st3 where
    l: "loadJSON fetched = Inr config'" and
    b: "buildCard (clampLayers (layersOrEmpty chosen)) st3 = (st, None)" and
    cl: "clampLayers (layersOrEmpty chosen) =
       take MAX_LAYERS (configuredLayers config' (getCardIdFromUrl idParam))"
    by (rule main_success)
  from l assms(2) have "config' = config" by simp
  with cl have cl5: "clampLayers (layersOrEmpty chosen) = take 5 ?raw"
    by (simp add: MAX_LAYERS_def)
  have 1: "videoBtn_display st =
           (if \<exists>l. Some l \<in> set (take 5 ?raw) \<and> l_type l = Some (js ''video'')
            then js ''inline-block'' else js ''none'')"
    using buildCard_overlays(3)[OF b] unfolding cl5 .
  have 2: "\<forall>l s. l_type l = Some (js ''video'') \<and> \<not> truthy (l_src l) \<longrightarrow>
                  spawnLayer s (Some l) = Inr s"
    by (simp add: spawnLayer_def)
  have 3: "\<forall>l. Some l \<in> set (take 5 ?raw) \<and>
               l_type l = Some (js ''video'') \<and> \<not> truthy (l_src l) \<longrightarrow>
               videoBtn_display st = js ''inline-block''"
    unfolding 1 by auto
  from 1 2 3 show ?thesis by (intro conjI)
qed

text \<open>
  Claim C10 on the card whose first five layers are videos without \<open>src\<close>: the button is
  shown, and there is neither an overlay nor a video element.
\<close>

theorem C10_witness:
  "Some ex_video_nosrc \<in> set (take 5 (configuredLayers ex_config_six (getCardIdFromUrl None))) \<and>
   l_type ex_video_nosrc = Some (js ''video'') \<and> \<not> truthy (l_src ex_video_nosrc) \<and>
   videoBtn_display (fst (main None (Response 200 (Some ex_config_six)) ex_page)) = js ''inline-block'' \<and>
   spawnLayer ex_page (Some ex_video_nosrc) = Inr ex_page \<and>
   spawnedEntities (fst (main None (Response 200 (Some ex_config_six)) ex_page)) = [] \<and>
   assets (fst (main None (Response 200 (Some ex_config_six)) ex_page)) = []"
proof -
  have h1: "Some ex_video_nosrc \<in> set (take 5 (configuredLayers ex_config_six (getCardIdFromUrl None)))"
    by (simp add: ex_six_layers)
  have h2: "l_type ex_video_nosrc = Some (js ''video'')" "\<not> truthy (l_src ex_video_nosrc)"
    by (simp_all add: ex_video_nosrc_def truthy_def)
  note T = C10_video_button_before_src_check [OF ex_six_main_ok ex_six_loaded]
  from T h1 h2 have t1:
    "videoBtn_display (fst (main None (Response 200 (Some ex_config_six)) ex_page)) = js ''inline-block''"
    by blast
  from T h2 have t2: "spawnLayer ex_page (Some ex_video_nosrc) = Inr ex_page" by blast
  have t3: "spawnedEntities (fst (main None (Response 200 (Some ex_config_six)) ex_page)) = []"
    by code_simp
  have t4: "assets (fst (main None (Response 200 (Some ex_config_six)) ex_page)) = []"
    by code_simp
  from h1 h2 t1 t2 t3 t4 show ?thesis by (intro conjI)
qed

section \<open>One overlay for each valid layer (claim C8)\<close>

lemma attach_mainjs_fields [simp]:
  "anchor_children (attach_mainjs e st) = anchor_children st @ [next_ref st]"
  "spawnedEntities (attach_mainjs e st) = spawnedEntities st"
  "ents (attach_mainjs e st) = (ents st)(next_ref st \<mapsto> e)"
  "next_ref (attach_mainjs e st) = Suc (next_ref st)"
  "assets (attach_mainjs e st) = assets st"
  by (simp_all add: attach_mainjs_def)

lemma ensureVideoAsset_latin1:
  assumes "latin1 (srcString l)"
  obtains st' where "ensureVideoAsset l st = Inr (vidIdOf (srcString l), st')"
    "spawnedEntities st' = spawnedEntities st" "anchor_children st' = anchor_children st"
    "next_ref st' = next_ref st" "ents st' = ents st" "clock st' = clock st"
    "\<exists>v \<in> set (assets st'). v_id v = vidIdOf (srcString l)"
proof (cases "getElementById (vidIdOf (srcString l)) st = None")
  case True
  show ?thesis
    by (rule that[of "st\<lparr>assets := assets st @
                       [\<lparr>v_id = vidIdOf (srcString l), v_src = srcString l,
                         v_crossOrigin = Some (js ''anonymous''), v_loop = True,
                         v_playsInline = True, v_muted = True, v_preload = Some (js ''auto''),
                         v_paused = True, v_currentTime = 0\<rparr>]\<rparr>"])
      (simp_all add: ensureVideoAsset_eq assms True)
next
  case False
  then have "\<exists>v \<in> set (assets st). v_id v = vidIdOf (srcString l)"
    by (simp add: getElementById_None)
  with False show ?thesis
    by (intro that[of st]) (simp_all add: ensureVideoAsset_eq assms)
qed

text \<open>
  Claim C8, as amended. In the newer build, the loop body makes exactly one overlay for
  a layer whose \<open>type\<close> is one of the four kinds and whose \<open>src\<close> is a non-empty string
  (for \<open>video\<close>: a string on which \<open>btoa\<close> is defined): one new entity, appended to the
  anchor and to \<open>spawnedEntities\<close>, carrying a textured plane for \<open>image\<close> and \<open>gif\<close>, a
  model node for \<open>model\<close>, and for \<open>video\<close> a plane that reads the video element of the
  source, which is then among the assets. In src/main.js the same holds for \<open>image\<close>,
  \<open>model\<close> and \<open>video\<close> (the entity is appended to the anchor), while a \<open>gif\<close> layer makes
  no overlay.
\<close>

theorem C8_one_overlay_per_valid_layer:
  "(validLayer l \<and> (l_type l = Some (js ''video'') \<longrightarrow> latin1 (srcString l)) \<longrightarrow>
      (\<exists>st' e. spawnLayer st (Some l) = Inr st' \<and>
         spawnedEntities st' = spawnedEntities st @ [next_ref st] \<and>
         anchor_children st' = anchor_children st @ [next_ref st] \<and>
         ents st' (next_ref st) = Some e \<and>
         (l_type l = Some (js ''image'') \<or> l_type l = Some (js ''gif'') \<longrightarrow>
            e_children e = [ImagePlane (srcString l) (Some (clock st))]) \<and>
         (l_type l = Some (js ''model'') \<longrightarrow> e_children e = [GltfModel (srcString l) True]) \<and>
         (l_type l = Some (js ''video'') \<longrightarrow>
            e_children e = [VideoPlane (vidIdOf (srcString l))] \<and>
            (\<exists>v \<in> set (assets st'). v_id v = vidIdOf (srcString l))))) \<and>
   (validLayer l \<and> l_type l \<noteq> Some (js ''gif'') \<and>
    (l_type l = Some (js ''video'') \<longrightarrow> latin1 (srcString l)) \<longrightarrow>
      (\<exists>st' e. spawnLayer_mainjs st (Some l) = Inr st' \<and>
         anchor_children st' = anchor_children st @ [next_ref st] \<and>
         ents st' (next_ref st) = Some e \<and>
         (l_type l = Some (js ''image'') \<longrightarrow> e_children e = [ImagePlane (srcString l) None]) \<and>
         (l_type l = Some (js ''model'') \<longrightarrow> e_children e = [GltfModel (srcString l) False]) \<and>
         (l_type l = Some (js ''video'') \<longrightarrow>
            e_children e = [VideoPlane (vidIdOf (srcString l))] \<and>
            (\<exists>v \<in> set (assets st'). v_id v = vidIdOf (srcString l))))) \<and>
   (l_type l = Some (js ''gif'') \<longrightarrow> spawnLayer_mainjs st (Some l) = Inr st)"
proof (intro conjI impI)
  assume h: "validLayer l \<and> (l_type l = Some (js ''video'') \<longrightarrow> latin1 (srcString l))"
  then have v: "validLayer l" by simp
  show "\<exists>st' e. spawnLayer st (Some l) = Inr st' \<and>
         spawnedEntities st' = spawnedEntities st @ [next_ref st] \<and>
         anchor_children st' = anchor_children st @ [next_ref st] \<and>
         ents st' (next_ref st) = Some e \<and>
         (l_type l = Some (js ''image'') \<or> l_type l = Some (js ''gif'') \<longrightarrow>
            e_children e = [ImagePlane (srcString l) (Some (clock st))]) \<and>
         (l_type l = Some (js ''model'') \<longrightarrow> e_children e = [GltfModel (srcString l) True]) \<and>
         (l_type l = Some (js ''video'') \<longrightarrow>
            e_children e = [VideoPlane (vidIdOf (srcString l))] \<and>
            (\<exists>v \<in> set (assets st'). v_id v = vidIdOf (srcString l)))"
  proof (cases "l_type l = Some (js ''video'')")
    case False
    show ?thesis
      by (rule exI[of _ "attach (overlayOf (clock st) l) st"],
          rule exI[of _ "overlayOf (clock st) l"])
         (use False v in \<open>auto simp: spawnLayer_valid overlayOf_def kinds_distinct\<close>)
  next
    case True
    with h have "latin1 (srcString l)" by simp
    then obtain st1 where e: "ensureVideoAsset l st = Inr (vidIdOf (srcString l), st1)"
      and f: "spawnedEntities st1 = spawnedEntities st" "anchor_children st1 = anchor_children st"
        "next_ref st1 = next_ref st" "ents st1 = ents st" "clock st1 = clock st"
      and a: "\<exists>v \<in> set (assets st1). v_id v = vidIdOf (srcString l)"
      by (rule ensureVideoAsset_latin1)
    show ?thesis
      by (rule exI[of _ "attach (overlayOf (clock st) l) st1"],
          rule exI[of _ "overlayOf (clock st) l"])
         (use True v e f a in \<open>auto simp: spawnLayer_valid overlayOf_def kinds_distinct\<close>)
  qed
next
  assume h: "validLayer l \<and> l_type l \<noteq> Some (js ''gif'') \<and>
    (l_type l = Some (js ''video'') \<longrightarrow> latin1 (srcString l))"
  then consider "l_type l = Some (js ''image'')" | "l_type l = Some (js ''model'')"
    | "l_type l = Some (js ''video'')"
    by (auto simp: validLayer_cases)
  then show "\<exists>st' e. spawnLayer_mainjs st (Some l) = Inr st' \<and>
         anchor_children st' = anchor_children st @ [next_ref st] \<and>
         ents st' (next_ref st) = Some e \<and>
         (l_type l = Some (js ''image'') \<longrightarrow> e_children e = [ImagePlane (srcString l) None]) \<and>
         (l_type l = Some (js ''model'') \<longrightarrow> e_children e = [GltfModel (srcString l) False]) \<and>
         (l_type l = Some (js ''video'') \<longrightarrow>
            e_children e = [VideoPlane (vidIdOf (srcString l))] \<and>
            (\<exists>v \<in> set (assets st'). v_id v = vidIdOf (srcString l)))"
  proof cases
    case 1
    with h show ?thesis
      by (auto simp: spawnLayer_mainjs_def validLayer_cases kinds_distinct truthy_def
          addImageLayer_mainjs_def)
  next
    case 2
    with h show ?thesis
      by (auto simp: spawnLayer_mainjs_def validLayer_cases kinds_distinct truthy_def
          addModelLayer_mainjs_def)
  next
    case 3
    with h have "latin1 (srcString l)" by simp
    then obtain st1 where e: "ensureVideoAsset l st = Inr (vidIdOf (srcString l), st1)"
      and f: "spawnedEntities st1 = spawnedEntities st" "anchor_children st1 = anchor_children st"
        "next_ref st1 = next_ref st" "ents st1 = ents st" "clock st1 = clock st"
      and a: "\<exists>v \<in> set (assets st1). v_id v = vidIdOf (srcString l)"
      by (rule ensureVideoAsset_latin1)
    from 3 h e f a show ?thesis
      by (auto simp: spawnLayer_mainjs_def validLayer_cases kinds_distinct truthy_def
          addVideoLayer_mainjs_def)
  qed
next
  assume "l_type l = Some (js ''gif'')"
  then show "spawnLayer_mainjs st (Some l) = Inr st"
    by (simp add: spawnLayer_mainjs_def kinds_distinct)
qed

text \<open>
  Claim C8 as stated fails in src/main.js: a \<open>gif\<close> layer with \<open>type\<close> and \<open>src\<close> leaves
  the state as it is, so the anchor stays without a child.
\<close>

theorem C8_counterexample:
  "l_type ex_gif = Some (js ''gif'') \<and> l_src ex_gif = Some (js ''a.gif'') \<and>
   spawnLayers_mainjs ex_page [Some ex_gif] = (ex_page, None) \<and>
   anchor_children ex_page = []"
  by (simp add: ex_gif_def spawnLayer_mainjs_def truthy_def kinds_distinct ex_page_def js_def)

text \<open>Claim C8 at the example video and gif layers.\<close>

theorem C8_witness:
  "validLayer ex_video \<and> latin1 (srcString ex_video) \<and> validLayer ex_gif \<and>
   (\<exists>st' e. spawnLayer ex_page (Some ex_video) = Inr st' \<and>
      spawnedEntities st' = [0] \<and> ents st' 0 = Some e \<and>
      e_children e = [VideoPlane (vidIdOf (js ''clip.mp4''))] \<and>
      (\<exists>v \<in> set (assets st'). v_id v = vidIdOf (js ''clip.mp4''))) \<and>
   (\<exists>st' e. spawnLayer ex_page (Some ex_gif) = Inr st' \<and>
      spawnedEntities st' = [0] \<and> ents st' 0 = Some e \<and>
      e_children e = [ImagePlane (js ''a.gif'') (Some 1000)]) \<and>
   spawnLayer_mainjs ex_page (Some ex_gif) = Inr ex_page"
proof -
  have v: "validLayer ex_video" "validLayer ex_gif"
    by (simp_all add: validLayer_cases ex_video_def ex_gif_def truthy_def js_def)
  have l: "latin1 (srcString ex_video)"
    by (simp add: latin1_def srcString_def ex_video_def js_def)
  have t: "l_type ex_video = Some (js ''video'')" "l_type ex_gif = Some (js ''gif'')"
    by (simp_all add: ex_video_def ex_gif_def)
  have s: "srcString ex_video = js ''clip.mp4''" "srcString ex_gif = js ''a.gif''"
    by (simp_all add: srcString_def ex_video_def ex_gif_def)
  have p: "spawnedEntities ex_page = []" "next_ref ex_page = 0" "clock ex_page = 1000"
    by (simp_all add: ex_page_def)
  from C8_one_overlay_per_valid_layer [of ex_video ex_page]
  have "validLayer ex_video \<and> (l_type ex_video = Some (js ''video'') \<longrightarrow> latin1 (srcString ex_video)) \<longrightarrow>
      (\<exists>st' e. spawnLayer ex_page (Some ex_video) = Inr st' \<and>
         spawnedEntities st' = spawnedEntities ex_page @ [next_ref ex_page] \<and>
         anchor_children st' = anchor_children ex_page @ [next_ref ex_page] \<and>
         ents st' (next_ref ex_page) = Some e \<and>
         (l_type ex_video = Some (js ''image'') \<or> l_type ex_video = Some (js ''gif'') \<longrightarrow>
            e_children e = [ImagePlane (srcString ex_video) (Some (clock ex_page))]) \<and>
         (l_type ex_video = Some (js ''model'') \<longrightarrow> e_children e = [GltfModel (srcString ex_video) True]) \<and>
         (l_type ex_video = Some (js ''video'') \<longrightarrow>
            e_children e = [VideoPlane (vidIdOf (srcString ex_video))] \<and>
            (\<exists>v \<in> set (assets st'). v_id v = vidIdOf (srcString ex_video))))"
    by (rule conjunct1)
  with v l obtain st1 e1 where a1: "spawnLayer ex_page (Some ex_video) = Inr st1"
    "spawnedEntities st1 = spawnedEntities ex_page @ [next_ref ex_page]"
    "ents st1 (next_ref ex_page) = Some e1"
    "l_type ex_video = Some (js ''video'') \<longrightarrow>
            e_children e1 = [VideoPlane (vidIdOf (srcString ex_video))] \<and>
            (\<exists>v \<in> set (assets st1). v_id v = vidIdOf (srcString ex_video))"
    by blast
  have 1: "\<exists>st' e. spawnLayer ex_page (Some ex_video) = Inr st' \<and>
      spawnedEntities st' = [0] \<and> ents st' 0 = Some e \<and>
      e_children e = [VideoPlane (vidIdOf (js ''clip.mp4''))] \<and>
      (\<exists>v \<in> set (assets st'). v_id v = vidIdOf (js ''clip.mp4''))"
    using a1 t(1) unfolding s p by (intro exI[of _ st1] exI[of _ e1]) simp
  from C8_one_overlay_per_valid_layer [of ex_gif ex_page]
  have "validLayer ex_gif \<and> (l_type ex_gif = Some (js ''video'') \<longrightarrow> latin1 (srcString ex_gif)) \<longrightarrow>
      (\<exists>st' e. spawnLayer ex_page (Some ex_gif) = Inr st' \<and>
         spawnedEntities st' = spawnedEntities ex_page @ [next_ref ex_page] \<and>
         anchor_children st' = anchor_children ex_page @ [next_ref ex_page] \<and>
         ents st' (next_ref ex_page) = Some e \<and>
         (l_type ex_gif = Some (js ''image'') \<or> l_type ex_gif = Some (js ''gif'') \<longrightarrow>
            e_children e = [ImagePlane (srcString ex_gif) (Some (clock ex_page))]) \<and>
         (l_type ex_gif = Some (js ''model'') \<longrightarrow> e_children e = [GltfModel (srcString ex_gif) True]) \<and>
         (l_type ex_gif = Some (js ''video'') \<longrightarrow>
            e_children e = [VideoPlane (vidIdOf (srcString ex_gif))] \<and>
            (\<exists>v \<in> set (assets st'). v_id v = vidIdOf (srcString ex_gif))))"
    by (rule conjunct1)
  moreover have "l_type ex_gif \<noteq> Some (js ''video'')"
    by (simp add: t kinds_distinct)
  ultimately obtain st2 e2 where a2: "spawnLayer ex_page (Some ex_gif) = Inr st2"
    "spawnedEntities st2 = spawnedEntities ex_page @ [next_ref ex_page]"
    "ents st2 (next_ref ex_page) = Some e2"
    "l_type ex_gif = Some (js ''image'') \<or> l_type ex_gif = Some (js ''gif'') \<longrightarrow>
            e_children e2 = [ImagePlane (srcString ex_gif) (Some (clock ex_page))]"
    using v by blast
  have 2: "\<exists>st' e. spawnLayer ex_page (Some ex_gif) = Inr st' \<and>
      spawnedEntities st' = [0] \<and> ents st' 0 = Some e \<and>
      e_children e = [ImagePlane (js ''a.gif'') (Some 1000)]"
    using a2 t(2) unfolding s p by (intro exI[of _ st2] exI[of _ e2]) simp
  from C8_one_overlay_per_valid_layer [of ex_gif ex_page] t
  have 3: "spawnLayer_mainjs ex_page (Some ex_gif) = Inr ex_page" by blast
  from v l 1 2 3 show ?thesis by (intro conjI)
qed

section \<open>The shared video element (claim C2)\<close>

text \<open>
  Where \<open>ensureVideoAsset\<close> returns, it is idempotent: a second call returns the same id
  and leaves the document as the first call left it, and a source that had no video
  element has exactly one afterwards.
\<close>

lemma ensureVideoAsset_idempotent:
  assumes "ensureVideoAsset l st = Inr (vid, st1)"
  shows "ensureVideoAsset l st1 = Inr (vid, st1)"
    and "getElementById vid st = None \<Longrightarrow> length (filter (\<lambda>v. v_id v = vid) (assets st1)) = 1"
proof -
  note F = ensureVideoAsset_frame[OF assms]
  have "getElementById vid st1 \<noteq> None"
    using F(4) by (simp add: getElementById_None)
  then show "ensureVideoAsset l st1 = Inr (vid, st1)"
    using F(1,2) by (simp add: ensureVideoAsset_eq)
  assume n: "getElementById vid st = None"
  then have "filter (\<lambda>v. v_id v = vid) (assets st) = []"
    by (auto simp: getElementById_None filter_empty_conv)
  then show "length (filter (\<lambda>v. v_id v = vid) (assets st1)) = 1"
    using assms n F(1,2) by (auto simp: ensureVideoAsset_eq split: if_splits)
qed

text \<open>
  Claim C2 at a source that \<open>btoa\<close> rejects. The video layer's \<open>src\<close> starts with the
  code unit U+65E5; \<open>ensureVideoAsset\<close> throws \<open>InvalidCharacterError\<close> instead of
  returning an id, \<open>main\<close> ends with that error, and the readout shows it.
\<close>

theorem C2_wide_source_throws:
  "l_src ex_video_wide = Some (26085 # js ''.mp4'') \<and>
   ensureVideoAsset ex_video_wide ex_page = Inl InvalidCharacterError \<and>
   snd (main None (Response 200 (Some ex_config_wide)) ex_page) = Some InvalidCharacterError \<and>
   last (status_log (onDOMContentLoaded None (Response 200 (Some ex_config_wide)) ex_page)) =
     ErrorStatus InvalidCharacterError"
proof -
  have 1: "l_src ex_video_wide = Some (26085 # js ''.mp4'')" by (simp add: ex_video_wide_def)
  have 2: "ensureVideoAsset ex_video_wide ex_page = Inl InvalidCharacterError"
    by (simp add: ensureVideoAsset_eq latin1_def srcString_def ex_video_wide_def)
  have 3: "snd (main None (Response 200 (Some ex_config_wide)) ex_page) = Some InvalidCharacterError"
    by (simp add: main_def Let_def getCardIdFromUrl_def loadJSON_def getProperty_def
        chooseCard_def ex_config_wide_def DEFAULT_CARD_ID_def layersOrEmpty_def get_layers_def
        get_instagramUrl_def ex_card_wide_def clampLayers_def MAX_LAYERS_def buildCard_def
        showVideoButtonIfNeeded_def ex_image_def ex_video_wide_def spawnLayer_def truthy_def
        addImageLayer_def addVideoLayer_def ensureVideoAsset_eq latin1_def srcString_def
        kinds_distinct)
  then have 4: "last (status_log (onDOMContentLoaded None (Response 200 (Some ex_config_wide)) ex_page)) =
     ErrorStatus InvalidCharacterError"
    by (cases "main None (Response 200 (Some ex_config_wide)) ex_page")
       (simp add: onDOMContentLoaded_def)
  from 1 2 3 4 show ?thesis by (intro conjI)
qed

section \<open>Card resolution (claim C6)\<close>

text \<open>\<open>trim\<close> gives the empty string exactly for a string of white space.\<close>

lemma trim_Nil_iff: "trim s = [] \<longleftrightarrow> (\<forall>c \<in> set s. isWhiteSpace c)"
proof
  assume "trim s = []"
  then have "dropWhile isWhiteSpace (rev (dropWhile isWhiteSpace s)) = []"
    by (simp add: trim_def)
  then have a: "\<forall>c \<in> set (dropWhile isWhiteSpace s). isWhiteSpace c"
    by (simp only: dropWhile_eq_Nil_conv set_rev)
  have "dropWhile isWhiteSpace s = []"
  proof (cases "dropWhile isWhiteSpace s")
    case Nil
    then show ?thesis .
  next
    case (Cons x xs)
    then have "\<not> isWhiteSpace x" using hd_dropWhile[of isWhiteSpace s] by simp
    moreover have "isWhiteSpace x" using a Cons by simp
    ultimately show ?thesis by simp
  qed
  then show "\<forall>c \<in> set s. isWhiteSpace c" by (simp only: dropWhile_eq_Nil_conv)
next
  assume "\<forall>c \<in> set s. isWhiteSpace c"
  then have d: "dropWhile isWhiteSpace s = []" by (simp only: dropWhile_eq_Nil_conv)
  show "trim s = []" unfolding trim_def d by simp
qed

text \<open>
  The requested id is the trimmed \<open>id\<close> parameter, and the default id when the parameter
  is missing or blank.
\<close>

lemma getCardIdFromUrl_eq:
  "getCardIdFromUrl idParam =
     (case idParam of
        None \<Rightarrow> DEFAULT_CARD_ID
      | Some i \<Rightarrow> if \<forall>c \<in> set i. isWhiteSpace c then DEFAULT_CARD_ID else trim i)"
proof (cases idParam)
  case None
  then show ?thesis by (simp add: getCardIdFromUrl_def)
next
  case (Some i)
  have "i = [] \<Longrightarrow> \<forall>c \<in> set i. isWhiteSpace c" by simp
  then show ?thesis using Some trim_Nil_iff[of i] by (auto simp: getCardIdFromUrl_def)
qed

lemma DEFAULT_not_inherited: "DEFAULT_CARD_ID \<notin> set objectPrototypeKeys"
  by (simp add: DEFAULT_CARD_ID_def objectPrototypeKeys_def js_def)

text \<open>
  A requested id that is neither an own key of the configuration nor a property name of
  \<open>Object.prototype\<close>: the notice is written once and the default card is built; without
  a default card \<open>main\<close> throws and the readout ends with the error.
\<close>

lemma main_unknown_id:
  assumes "loadJSON fetched = Inr config"
    and "config (getCardIdFromUrl idParam) = None"
    and "getCardIdFromUrl idParam \<notin> set objectPrototypeKeys"
  shows "config DEFAULT_CARD_ID = Some c \<Longrightarrow>
           main idParam fetched st0 =
             buildCard (clampLayers (layersOrEmpty (OwnCard c)))
               (st0\<lparr>status_log := status_log st0 @
                       [LoadingConfig (getCardIdFromUrl idParam),
                        UnknownCard (getCardIdFromUrl idParam) DEFAULT_CARD_ID],
                    igBtn_href := (case instagramUrl c of
                                     None \<Rightarrow> js ''https://instagram.com/''
                                   | Some u \<Rightarrow> if u \<noteq> [] then u
                                              else js ''https://instagram.com/'')\<rparr>)"
    and "config DEFAULT_CARD_ID = None \<Longrightarrow>
           snd (main idParam fetched st0) = Some MissingDefaultCard \<and>
           status_log (onDOMContentLoaded idParam fetched st0) = status_log st0 @
             [LoadingConfig (getCardIdFromUrl idParam),
              UnknownCard (getCardIdFromUrl idParam) DEFAULT_CARD_ID,
              ErrorStatus MissingDefaultCard]"
  using assms DEFAULT_not_inherited
  by (simp_all add: main_def onDOMContentLoaded_def Let_def chooseCard_def getProperty_def
      setStatus_def get_instagramUrl_def)

lemma ex_constructor_id: "getCardIdFromUrl (Some (js ''constructor'')) = js ''constructor''"
  by (simp add: getCardIdFromUrl_def trim_def isWhiteSpace_def js_def)

text \<open>
  Claim C6 at the requested id \<open>constructor\<close>, which the example configuration does not
  hold: \<open>config[cardId]\<close> finds the inherited property, so no notice is written, the
  default card is not used, and the page is ready without any overlay.
\<close>

theorem C6_inherited_key_taken_as_card:
  "ex_config (js ''constructor'') = None \<and>
   ex_config (js ''card_001'') = Some ex_card \<and>
   getCardIdFromUrl (Some (js ''constructor'')) = js ''constructor'' \<and>
   status_log (onDOMContentLoaded (Some (js ''constructor'')) (Response 200 (Some ex_config)) ex_page)
     = [LoadingConfig (js ''constructor''), Ready] \<and>
   spawnedEntities
     (onDOMContentLoaded (Some (js ''constructor'')) (Response 200 (Some ex_config)) ex_page) = [] \<and>
   anchor_children
     (onDOMContentLoaded (Some (js ''constructor'')) (Response 200 (Some ex_config)) ex_page) = []"
proof -
  have 1: "ex_config (js ''constructor'') = None" by (simp add: ex_config_def js_def)
  have 2: "ex_config (js ''card_001'') = Some ex_card" by (simp add: ex_config_def)
  have k: "js ''constructor'' \<in> set objectPrototypeKeys" by (simp add: objectPrototypeKeys_def)
  have m: "main (Some (js ''constructor'')) (Response 200 (Some ex_config)) ex_page =
      buildCard [] (ex_page\<lparr>status_log := [LoadingConfig (js ''constructor'')],
                            igBtn_href := js ''https://instagram.com/''\<rparr>)"
    using 1 k
    by (simp add: main_def Let_def ex_constructor_id loadJSON_def getProperty_def chooseCard_def
        get_instagramUrl_def layersOrEmpty_def get_layers_def clampLayers_def setStatus_def
        ex_page_def)
  have 3: "status_log (onDOMContentLoaded (Some (js ''constructor'')) (Response 200 (Some ex_config)) ex_page)
     = [LoadingConfig (js ''constructor''), Ready]"
    by (simp add: onDOMContentLoaded_def m buildCard_def showVideoButtonIfNeeded_def)
  have 4: "spawnedEntities
     (onDOMContentLoaded (Some (js ''constructor'')) (Response 200 (Some ex_config)) ex_page) = []"
    by (simp add: onDOMContentLoaded_def m buildCard_def showVideoButtonIfNeeded_def)
  have 5: "anchor_children
     (onDOMContentLoaded (Some (js ''constructor'')) (Response 200 (Some ex_config)) ex_page) = []"
    by (simp add: onDOMContentLoaded_def m buildCard_def showVideoButtonIfNeeded_def)
  from 1 2 ex_constructor_id 3 4 5 show ?thesis by (intro conjI)
qed

end
